theory Spec2Isabelle
  imports Complex_Main
begin

section \<open>Observable events and collaborators\<close>

text \<open>
  The script drives four collaborators: the SIMBAD name resolver, the INDI device client,
  the PHD2 guiding daemon (over HTTP) and the operator's console, and it writes a log and
  creates directories.  Every call that leaves the program is recorded, in program order,
  as an \<open>event\<close> of the run's trace.  Python's numbers (\<open>int\<close> and \<open>float\<close> alike)
  that are sent to a device or slept for are modelled as \<open>real\<close>; the exposure counter
  is an \<open>int\<close>.
\<close>

datatype level = INFO | ERROR

datatype event =
    Simbad_query string
      \<comment> \<open>\<open>simbad.query_object(object_name)\<close>\<close>
  | Get_property string string
      \<comment> \<open>\<open>indi.get_device(device).get_property(name)\<close>\<close>
  | Input_prompt string
      \<comment> \<open>\<open>input(prompt)\<close>\<close>
  | Makedirs string
      \<comment> \<open>\<open>os.makedirs(directory_name, exist_ok=True)\<close>\<close>
  | Http_get string "(string \<times> string) list"
      \<comment> \<open>\<open>requests.get(url, params=...)\<close>\<close>
  | Send_number string string string real
      \<comment> \<open>\<open>indi.send_new_number(device, property, field, value)\<close>\<close>
  | Send_coord string string real real
      \<comment> \<open>\<open>indi.send_new_number(device, property, {"RA": ra, "DEC": dec})\<close>\<close>
  | Send_text string string string string
      \<comment> \<open>\<open>indi.send_new_text(device, property, field, value)\<close>\<close>
  | Sleep real
      \<comment> \<open>\<open>time.sleep(seconds)\<close>\<close>
  | Log level string
      \<comment> \<open>\<open>logging.info(msg)\<close>, \<open>logging.error(msg)\<close>\<close>

text \<open>
  Exceptions that the arguments of a command decide are values of \<open>py_error\<close>: the
  lookup \<open>filters[filter_name]\<close> raises \<open>KeyError\<close>, and \<open>time.sleep\<close> raises
  \<open>OverflowError\<close> for a length that does not fit its clock and \<open>ValueError\<close> for a
  negative one.  The collaborators themselves are taken to answer every call.
\<close>

datatype py_error = KeyError string | ValueError | OverflowError

record coords =
  ra_deg :: real
  dec_deg :: real

record datetime =
  year :: nat
  month :: nat
  day :: nat
  hour :: nat
  minute :: nat

text \<open>
  What the collaborators answer.  \<open>simbad\<close> is the resolver (\<open>None\<close>: the query has no
  result), \<open>altitude_of\<close> the altitude in degrees that the coordinate transform gives,
  \<open>reply\<close> the line the operator types at the prompt, \<open>phd2\<close> the \<open>status\<close> member of
  the JSON answer of an endpoint of the guiding daemon (\<open>None\<close>: no such member),
  \<open>clock k\<close> the value of the \<open>k\<close>-th call of \<open>datetime.now()\<close>, and \<open>fmt_float\<close>,
  \<open>fmt_2f\<close> Python's rendering of a float in an f-string (plain and \<open>:.2f\<close>).
\<close>

record env =
  simbad :: "string \<Rightarrow> coords option"
  altitude_of :: "coords \<Rightarrow> real"
  reply :: string
  phd2 :: "string \<Rightarrow> string option"
  clock :: "nat \<Rightarrow> datetime"
  fmt_float :: "real \<Rightarrow> string"
  fmt_2f :: "real \<Rightarrow> string"

text \<open>The state of a run: the trace so far and the number of clock readings taken.\<close>

record world =
  trace :: "event list"
  ticks :: nat

text \<open>The world a command starts in.\<close>

definition fresh :: world where
  "fresh = \<lparr>trace = [], ticks = 0\<rparr>"

definition emit :: "event \<Rightarrow> world \<Rightarrow> world" where
  "emit e w = w\<lparr>trace := trace w @ [e]\<rparr>"

definition emits :: "event list \<Rightarrow> world \<Rightarrow> world" where
  "emits es w = w\<lparr>trace := trace w @ es\<rparr>"

definition now :: "env \<Rightarrow> world \<Rightarrow> datetime \<times> world" where
  "now env w = (clock env (ticks w), w\<lparr>ticks := Suc (ticks w)\<rparr>)"

section \<open>String formatting\<close>

definition digit_char :: "nat \<Rightarrow> char" where
  "digit_char d = ''0123456789'' ! (d mod 10)"

text \<open>\<open>str(n)\<close> for a natural number: its decimal digits, most significant first.\<close>

fun str_nat :: "nat \<Rightarrow> string" where
  "str_nat n = (if n < 10 then [digit_char n] else str_nat (n div 10) @ [digit_char (n mod 10)])"

declare str_nat.simps [simp del]

definition zfill :: "nat \<Rightarrow> string \<Rightarrow> string" where
  "zfill width s = replicate (width - length s) (CHR ''0'') @ s"

text \<open>The format specification \<open>:04d\<close>: sign-aware zero padding to a minimum width of 4.\<close>

definition fmt_04d :: "int \<Rightarrow> string" where
  "fmt_04d n = (if n < 0 then ''-'' @ zfill 3 (str_nat (nat (- n))) else zfill 4 (str_nat (nat n)))"

text \<open>
  \<open>strftime('%Y%m%d_%H%MUT')\<close>.  The year is rendered with four digits, which is what the
  C library gives for the years 1000 to 9999.
\<close>

definition strftime :: "datetime \<Rightarrow> string" where
  "strftime dt =
     zfill 4 (str_nat (year dt)) @ zfill 2 (str_nat (month dt)) @ zfill 2 (str_nat (day dt))
     @ ''_'' @ zfill 2 (str_nat (hour dt)) @ zfill 2 (str_nat (minute dt)) @ ''UT''"

text \<open>
  \<open>str.lower()\<close>, on the letters A to Z.  The other characters are left as they are: the
  program compares the result with \<open>y\<close> only, and \<open>Y\<close> is the one other character
  that Python lower-cases to \<open>y\<close>.
\<close>

definition lower_char :: "char \<Rightarrow> char" where
  "lower_char c =
     (case map_of (zip ''ABCDEFGHIJKLMNOPQRSTUVWXYZ'' ''abcdefghijklmnopqrstuvwxyz'') c of
        Some l \<Rightarrow> l
      | None \<Rightarrow> c)"

definition lower :: "string \<Rightarrow> string" where
  "lower s = map lower_char s"

section \<open>The program\<close>

definition PHD2_API_URL :: string where
  "PHD2_API_URL = ''http://localhost:4400''"

definition filters :: "string \<rightharpoonup> int" where
  "filters = map_of [(''L'', 1), (''R'', 2), (''G'', 3), (''B'', 4), (''H'', 5), (''O'', 6)]"

definition get_coordinates :: "env \<Rightarrow> string \<Rightarrow> world \<Rightarrow> coords option \<times> world" where
  "get_coordinates env object_name w =
     (let w1 = emit (Simbad_query object_name) w in
      case simbad env object_name of
        Some c \<Rightarrow> (Some c, w1)
      | None \<Rightarrow> (None, emit (Log ERROR (''Object '' @ object_name @ '' not found.'')) w1))"

definition check_altitude :: "env \<Rightarrow> coords \<Rightarrow> world \<Rightarrow> real \<times> world" where
  "check_altitude env c w =
     (altitude_of env c, emit (Get_property ''iOptron IEQ Pro'' ''GEOGRAPHIC_COORD'') w)"

definition slew_to_target :: "env \<Rightarrow> coords \<Rightarrow> world \<Rightarrow> world" where
  "slew_to_target env c w =
     emits [Send_coord ''iOptron IEQ Pro'' ''EQUATORIAL_EOD_COORD'' (ra_deg c) (dec_deg c),
            Sleep 10,
            Log INFO (''Slewed to RA: '' @ fmt_float env (ra_deg c) @ '', DEC: ''
                      @ fmt_float env (dec_deg c))] w"

definition start_guiding :: "env \<Rightarrow> world \<Rightarrow> bool \<times> world" where
  "start_guiding env w =
     (phd2 env ''/guide'' = Some ''OK'', emit (Http_get (PHD2_API_URL @ ''/guide'') []) w)"

definition stop_guiding :: "env \<Rightarrow> world \<Rightarrow> bool \<times> world" where
  "stop_guiding env w =
     (phd2 env ''/stop_capture'' = Some ''OK'',
      emit (Http_get (PHD2_API_URL @ ''/stop_capture'') []) w)"

definition enable_multi_star_guiding :: "env \<Rightarrow> world \<Rightarrow> bool \<times> world" where
  "enable_multi_star_guiding env w =
     (phd2 env ''/set_dec_guide_mode'' = Some ''OK'',
      emit (Http_get (PHD2_API_URL @ ''/set_dec_guide_mode'') [(''mode'', ''multistar'')]) w)"

text \<open>
  \<open>time.sleep(secs)\<close> for a length the caller computes.  The interpreter first converts
  the length to a signed 64-bit count of nanoseconds, which raises \<open>OverflowError\<close> when
  the count is out of range (from about 9.22e9 seconds on), and then refuses a negative
  count with \<open>ValueError\<close>.  The fixed lengths 1, 2 and 10 of the script pass both checks
  and are recorded directly.
\<close>

definition sleep :: "real \<Rightarrow> world \<Rightarrow> (py_error + unit) \<times> world" where
  "sleep secs w =
     (if secs * 10 ^ 9 < - (2 ^ 63) \<or> 2 ^ 63 - 1 < secs * 10 ^ 9 then (Inl OverflowError, w)
      else if secs < 0 then (Inl ValueError, w)
      else (Inr (), emit (Sleep secs) w))"

definition capture_image ::
  "env \<Rightarrow> real \<Rightarrow> string \<Rightarrow> string \<Rightarrow> int \<Rightarrow> world \<Rightarrow> (py_error + unit) \<times> world" where
  "capture_image env exposure_time filter_name directory count w =
     (case filters filter_name of
        None \<Rightarrow> (Inl (KeyError filter_name), w)
      | Some filter_position \<Rightarrow>
          let w1 = emits [Send_number ''ZWO EFW'' ''FILTER_SLOT'' ''FILTER_SLOT_VALUE''
                            (of_int filter_position),
                          Sleep 2,
                          Send_number ''ZWO CCD ASI183MM Pro'' ''CCD_EXPOSURE''
                            ''CCD_EXPOSURE_VALUE'' exposure_time] w
          in case sleep (exposure_time + 2) w1 of
               (Inl e, w2) \<Rightarrow> (Inl e, w2)
             | (Inr u, w2) \<Rightarrow>
                 let (t, w3) = now env w2;
                     timestamp = strftime t;
                     filename = directory @ ''/'' @ filter_name @ ''_'' @ timestamp @ ''_''
                                @ fmt_04d count @ ''.fits''
                 in (Inr (),
                     emits [Send_text ''ZWO CCD ASI183MM Pro'' ''CCD_SAVE'' ''CCD_SAVE_PATH''
                              filename,
                            Log INFO (''Captured '' @ filename)] w3))"

definition dither :: "world \<Rightarrow> world" where
  "dither w =
     emits [Send_number ''iOptron IEQ Pro'' ''TELESCOPE_MOTION_NS''
              ''TELESCOPE_MOTION_NS_VALUE'' 1,
            Sleep 1,
            Send_number ''iOptron IEQ Pro'' ''TELESCOPE_MOTION_WE''
              ''TELESCOPE_MOTION_WE_VALUE'' 1,
            Sleep 1,
            Send_number ''iOptron IEQ Pro'' ''TELESCOPE_MOTION_NS''
              ''TELESCOPE_MOTION_NS_VALUE'' 0,
            Send_number ''iOptron IEQ Pro'' ''TELESCOPE_MOTION_WE''
              ''TELESCOPE_MOTION_WE_VALUE'' 0] w"

definition create_directory :: "env \<Rightarrow> string \<Rightarrow> string \<Rightarrow> world \<Rightarrow> string \<times> world" where
  "create_directory env base_directory target_name w =
     (let (t, w1) = now env w;
          timestamp = strftime t;
          directory_name = base_directory @ ''/'' @ target_name @ ''_'' @ timestamp
      in (directory_name, emit (Makedirs directory_name) w1))"

definition check_continue_sequence :: "env \<Rightarrow> real \<Rightarrow> world \<Rightarrow> bool \<times> world" where
  "check_continue_sequence env altitude w =
     (if altitude < 20 then
        (lower (reply env) = ''y'',
         emit (Input_prompt (''Target is at '' @ fmt_2f env altitude
                             @ '' degrees altitude, continue? (y/n): '')) w)
      else (True, w))"

definition observatory_target :: "env \<Rightarrow> string \<Rightarrow> world \<Rightarrow> world" where
  "observatory_target env target_name w =
     (let (found, w1) = get_coordinates env target_name w in
      case found of
        Some c \<Rightarrow>
          let (altitude, w2) = check_altitude env c w1;
              (go, w3) = check_continue_sequence env altitude w2
          in if go then slew_to_target env c w3
             else emit (Log INFO ''Aborted slew due to low altitude.'') w3
      | None \<Rightarrow> emit (Log ERROR ''Target not found.'') w1)"

text \<open>
  The body of \<open>for i in range(exposure_count)\<close>, over the list of the indices still to
  run; an exception raised by a capture ends the loop and the command.
\<close>

fun capture_loop ::
  "env \<Rightarrow> real \<Rightarrow> string \<Rightarrow> string \<Rightarrow> nat list \<Rightarrow> world \<Rightarrow> (py_error + unit) \<times> world" where
  "capture_loop env exposure_time filter_name directory [] w = (Inr (), w)"
| "capture_loop env exposure_time filter_name directory (i # rest) w =
     (let w1 = (if i \<noteq> 0 then dither w else w) in
      case capture_image env exposure_time filter_name directory (int i + 1) w1 of
        (Inl e, w2) \<Rightarrow> (Inl e, w2)
      | (Inr u, w2) \<Rightarrow> capture_loop env exposure_time filter_name directory rest w2)"

definition observatory_sequence ::
  "env \<Rightarrow> string \<Rightarrow> string \<Rightarrow> string \<Rightarrow> int \<Rightarrow> real \<Rightarrow> world \<Rightarrow> (py_error + unit) \<times> world" where
  "observatory_sequence env target base_directory filter_name exposure_count exposure_time w =
     (let (found, w1) = get_coordinates env target w in
      case found of
        Some c \<Rightarrow>
          let (altitude, w2) = check_altitude env c w1;
              (go, w3) = check_continue_sequence env altitude w2
          in if go then
               let (directory, w4) = create_directory env base_directory target w3;
                   (enabled, w5) = enable_multi_star_guiding env w4;
                   (started, w6) = start_guiding env w5
               in case capture_loop env exposure_time filter_name directory
                         [0..<nat exposure_count] w6 of
                    (Inl e, w7) \<Rightarrow> (Inl e, w7)
                  | (Inr u, w7) \<Rightarrow>
                      let (stopped, w8) = stop_guiding env w7
                      in (Inr (),
                          emit (Log INFO (''Sequence complete. Images stored in ''
                                          @ directory @ ''.'')) w8)
             else (Inr (), emit (Log INFO ''Sequence aborted due to low altitude.'') w3)
      | None \<Rightarrow> (Inr (), emit (Log ERROR ''Target not found.'') w1))"

section \<open>Reading a trace\<close>

text \<open>
  The lengths \<open>time.sleep\<close> accepts, and the exception it raises for the others.
\<close>

definition sleeps :: "real \<Rightarrow> bool" where
  "sleeps secs = (0 \<le> secs \<and> secs * 10 ^ 9 \<le> 2 ^ 63 - 1)"

definition sleep_error :: "real \<Rightarrow> py_error" where
  "sleep_error secs =
     (if secs * 10 ^ 9 < - (2 ^ 63) \<or> 2 ^ 63 - 1 < secs * 10 ^ 9 then OverflowError
      else ValueError)"

text \<open>
  The events of one \<open>dither()\<close> call and of one \<open>capture_image\<close> call that returns, the
  latter with the clock reading \<open>k\<close> it takes; \<open>loop_events\<close> lists what the loop issues
  over the indices \<open>js\<close> when every capture returns, the first capture taking reading \<open>k\<close>.
\<close>

definition dither_events :: "event list" where
  "dither_events =
     [Send_number ''iOptron IEQ Pro'' ''TELESCOPE_MOTION_NS'' ''TELESCOPE_MOTION_NS_VALUE'' 1,
      Sleep 1,
      Send_number ''iOptron IEQ Pro'' ''TELESCOPE_MOTION_WE'' ''TELESCOPE_MOTION_WE_VALUE'' 1,
      Sleep 1,
      Send_number ''iOptron IEQ Pro'' ''TELESCOPE_MOTION_NS'' ''TELESCOPE_MOTION_NS_VALUE'' 0,
      Send_number ''iOptron IEQ Pro'' ''TELESCOPE_MOTION_WE'' ''TELESCOPE_MOTION_WE_VALUE'' 0]"

definition frame_name :: "env \<Rightarrow> string \<Rightarrow> string \<Rightarrow> nat \<Rightarrow> string" where
  "frame_name env directory filter_name i =
     directory @ ''/'' @ filter_name @ ''_'' @ strftime (clock env i) @ ''_''
     @ fmt_04d (int i) @ ''.fits''"

definition capture_events :: "env \<Rightarrow> real \<Rightarrow> string \<Rightarrow> string \<Rightarrow> int \<Rightarrow> nat \<Rightarrow> event list" where
  "capture_events env exposure_time filter_name directory count k =
     (case filters filter_name of
        None \<Rightarrow> []
      | Some filter_position \<Rightarrow>
          (let filename = directory @ ''/'' @ filter_name @ ''_'' @ strftime (clock env k)
                          @ ''_'' @ fmt_04d count @ ''.fits''
           in [Send_number ''ZWO EFW'' ''FILTER_SLOT'' ''FILTER_SLOT_VALUE''
                 (of_int filter_position),
               Sleep 2,
               Send_number ''ZWO CCD ASI183MM Pro'' ''CCD_EXPOSURE'' ''CCD_EXPOSURE_VALUE''
                 exposure_time,
               Sleep (exposure_time + 2),
               Send_text ''ZWO CCD ASI183MM Pro'' ''CCD_SAVE'' ''CCD_SAVE_PATH'' filename,
               Log INFO (''Captured '' @ filename)]))"

fun loop_events :: "env \<Rightarrow> real \<Rightarrow> string \<Rightarrow> string \<Rightarrow> nat list \<Rightarrow> nat \<Rightarrow> event list" where
  "loop_events env exposure_time filter_name directory [] k = []"
| "loop_events env exposure_time filter_name directory (i # rest) k =
     (if i \<noteq> 0 then dither_events else [])
     @ capture_events env exposure_time filter_name directory (int i + 1) k
     @ loop_events env exposure_time filter_name directory rest (Suc k)"

text \<open>
  What a run issues up to the start of guiding once the target is resolved to \<open>c\<close> and the
  gate lets it pass: the query, the read of the site's position, the prompt when the
  target is low, the output directory, and the two calls of the guiding daemon.
\<close>

definition gate_events :: "env \<Rightarrow> string \<Rightarrow> coords \<Rightarrow> event list" where
  "gate_events env target c =
     [Simbad_query target, Get_property ''iOptron IEQ Pro'' ''GEOGRAPHIC_COORD'']
     @ (if altitude_of env c < 20
        then [Input_prompt (''Target is at '' @ fmt_2f env (altitude_of env c)
                            @ '' degrees altitude, continue? (y/n): '')]
        else [])"

definition run_directory :: "env \<Rightarrow> string \<Rightarrow> string \<Rightarrow> string" where
  "run_directory env base_directory target =
     base_directory @ ''/'' @ target @ ''_'' @ strftime (clock env 0)"

definition guide_enable_event :: event where
  "guide_enable_event =
     Http_get ''http://localhost:4400/set_dec_guide_mode'' [(''mode'', ''multistar'')]"

definition guide_start_event :: event where
  "guide_start_event = Http_get ''http://localhost:4400/guide'' []"

definition guide_stop_event :: event where
  "guide_stop_event = Http_get ''http://localhost:4400/stop_capture'' []"

definition prelude :: "env \<Rightarrow> string \<Rightarrow> string \<Rightarrow> coords \<Rightarrow> event list" where
  "prelude env target base_directory c =
     gate_events env target c
     @ [Makedirs (run_directory env base_directory target),
        guide_enable_event, guide_start_event]"

text \<open>Classes of events.\<close>

fun is_exposure_cmd :: "event \<Rightarrow> bool" where
  "is_exposure_cmd (Send_number d p f v) =
     (d = ''ZWO CCD ASI183MM Pro'' \<and> p = ''CCD_EXPOSURE'')"
| "is_exposure_cmd _ = False"

fun is_save_cmd :: "event \<Rightarrow> bool" where
  "is_save_cmd (Send_text d p f v) = (d = ''ZWO CCD ASI183MM Pro'' \<and> p = ''CCD_SAVE'')"
| "is_save_cmd _ = False"

text \<open>A command of a capture: anything sent to the filter wheel or to the camera.\<close>

fun is_capture_cmd :: "event \<Rightarrow> bool" where
  "is_capture_cmd (Send_number d p f v) = (d = ''ZWO EFW'' \<or> d = ''ZWO CCD ASI183MM Pro'')"
| "is_capture_cmd (Send_text d p f v) = (d = ''ZWO EFW'' \<or> d = ''ZWO CCD ASI183MM Pro'')"
| "is_capture_cmd _ = False"

text \<open>A command of a dither: a write to a motion property of the mount.\<close>

fun is_dither_cmd :: "event \<Rightarrow> bool" where
  "is_dither_cmd (Send_number d p f v) =
     (d = ''iOptron IEQ Pro'' \<and> (p = ''TELESCOPE_MOTION_NS'' \<or> p = ''TELESCOPE_MOTION_WE''))"
| "is_dither_cmd _ = False"

text \<open>The first command of a dither, which no other call issues.\<close>

fun is_dither_start :: "event \<Rightarrow> bool" where
  "is_dither_start (Send_number d p f v) =
     (d = ''iOptron IEQ Pro'' \<and> p = ''TELESCOPE_MOTION_NS'' \<and> v = 1)"
| "is_dither_start _ = False"

fun is_slew_cmd :: "event \<Rightarrow> bool" where
  "is_slew_cmd (Send_coord d p r1 r2) = True"
| "is_slew_cmd _ = False"

text \<open>Any call of the device client or of the guiding daemon.\<close>

fun is_device_cmd :: "event \<Rightarrow> bool" where
  "is_device_cmd (Get_property d p) = True"
| "is_device_cmd (Send_number d p f v) = True"
| "is_device_cmd (Send_coord d p r1 r2) = True"
| "is_device_cmd (Send_text d p f v) = True"
| "is_device_cmd (Http_get u ps) = True"
| "is_device_cmd _ = False"

fun is_prompt :: "event \<Rightarrow> bool" where
  "is_prompt (Input_prompt m) = True"
| "is_prompt _ = False"

fun is_makedirs :: "event \<Rightarrow> bool" where
  "is_makedirs (Makedirs d) = True"
| "is_makedirs _ = False"

fun is_error_log :: "event \<Rightarrow> bool" where
  "is_error_log (Log l m) = (l = ERROR)"
| "is_error_log _ = False"

text \<open>
  The writes to the two motion properties of the mount that a trace holds, in order, each
  as the property and the value written.
\<close>

fun motion_write :: "event \<Rightarrow> (string \<times> real) list" where
  "motion_write (Send_number d p f v) =
     (if d = ''iOptron IEQ Pro'' \<and> (p = ''TELESCOPE_MOTION_NS'' \<or> p = ''TELESCOPE_MOTION_WE'')
      then [(p, v)] else [])"
| "motion_write _ = []"

definition motion_writes :: "event list \<Rightarrow> (string \<times> real) list" where
  "motion_writes tr = concat (map motion_write tr)"

text \<open>The paths a trace asks the camera to save frames under, in order.\<close>

fun saved_path :: "event \<Rightarrow> string list" where
  "saved_path (Send_text d p f v) =
     (if d = ''ZWO CCD ASI183MM Pro'' \<and> p = ''CCD_SAVE'' then [v] else [])"
| "saved_path _ = []"

definition saved_paths :: "event list \<Rightarrow> string list" where
  "saved_paths tr = concat (map saved_path tr)"

text \<open>The shape of a time stamp \<open>YYYYMMDD_HHMMUT\<close>, and reading a string of digits.\<close>

definition is_digit :: "char \<Rightarrow> bool" where
  "is_digit c = (c \<in> set ''0123456789'')"

definition is_stamp :: "string \<Rightarrow> bool" where
  "is_stamp s =
     (length s = 15 \<and> list_all is_digit (take 8 s) \<and> s ! 8 = CHR ''_''
      \<and> list_all is_digit (take 4 (drop 9 s)) \<and> drop 13 s = ''UT'')"

definition digit_val :: "char \<Rightarrow> nat" where
  "digit_val c = of_char c - 48"

definition nat_of_digits :: "string \<Rightarrow> nat" where
  "nat_of_digits s = foldl (\<lambda>a c. 10 * a + digit_val c) 0 s"

text \<open>The values \<open>datetime.now()\<close> returns whose year has four digits.\<close>

definition valid_datetime :: "datetime \<Rightarrow> bool" where
  "valid_datetime dt =
     (1000 \<le> year dt \<and> year dt \<le> 9999 \<and> 1 \<le> month dt \<and> month dt \<le> 12
      \<and> 1 \<le> day dt \<and> day dt \<le> 31 \<and> hour dt < 24 \<and> minute dt < 60)"

text \<open>The outcome and the trace of a sequence command issued in a fresh world.\<close>

definition sequence_result ::
  "env \<Rightarrow> string \<Rightarrow> string \<Rightarrow> string \<Rightarrow> int \<Rightarrow> real \<Rightarrow> py_error + unit" where
  "sequence_result env target base_directory filter_name exposure_count exposure_time =
     fst (observatory_sequence env target base_directory filter_name exposure_count
            exposure_time fresh)"

definition sequence_trace ::
  "env \<Rightarrow> string \<Rightarrow> string \<Rightarrow> string \<Rightarrow> int \<Rightarrow> real \<Rightarrow> event list" where
  "sequence_trace env target base_directory filter_name exposure_count exposure_time =
     trace (snd (observatory_sequence env target base_directory filter_name exposure_count
                   exposure_time fresh))"

text \<open>The gate lets a target at \<open>c\<close> pass: \<open>check_continue_sequence\<close> returns \<open>True\<close>.\<close>

definition passes_gate :: "env \<Rightarrow> coords \<Rightarrow> bool" where
  "passes_gate env c = fst (check_continue_sequence env (altitude_of env c) fresh)"

section \<open>A concrete session\<close>

text \<open>
  The collaborators of the example at the end of the script: M42 stands at 45 degrees, the
  daemon answers \<open>OK\<close>, the clock reads 2024-08-07 22:30.
\<close>

definition M42 :: coords where
  "M42 = \<lparr>ra_deg = 83.82, dec_deg = - 5.39\<rparr>"

definition session :: env where
  "session =
     \<lparr>simbad = (\<lambda>name. if name = ''M42'' then Some M42 else None),
      altitude_of = (\<lambda>c. 45),
      reply = ''n'',
      phd2 = (\<lambda>endpoint. Some ''OK''),
      clock = (\<lambda>k. \<lparr>year = 2024, month = 8, day = 7, hour = 22, minute = 30\<rparr>),
      fmt_float = (\<lambda>x. if x = 83.82 then ''83.82'' else ''-5.39''),
      fmt_2f = (\<lambda>x. ''45.00'')\<rparr>"

text \<open>The same session with the target at 12 degrees and the operator typing \<open>r\<close>.\<close>

definition low_session :: "string \<Rightarrow> env" where
  "low_session r = session\<lparr>altitude_of := (\<lambda>c. 12), reply := r, fmt_2f := (\<lambda>x. ''12.00'')\<rparr>"

text \<open>The same session with a guiding daemon that answers every call with an error.\<close>

definition failing_guider :: env where
  "failing_guider = session\<lparr>phd2 := (\<lambda>endpoint. Some ''ERROR'')\<rparr>"

section \<open>The events of a call\<close>

lemma dither_trace: "dither w = w\<lparr>trace := trace w @ dither_events\<rparr>"
  by (simp add: dither_def emits_def dither_events_def)

lemma sleep_ok:
  assumes "sleeps secs"
  shows "sleep secs w = (Inr (), emit (Sleep secs) w)"
proof -
  from assms have "0 \<le> secs" and "secs * 10 ^ 9 \<le> 2 ^ 63 - 1"
    by (simp_all add: sleeps_def)
  moreover from \<open>0 \<le> secs\<close> have "\<not> secs * 10 ^ 9 < - (2 ^ 63)"
    by (simp add: not_less order_trans [of "- (2 ^ 63)" 0])
  ultimately show ?thesis by (simp add: sleep_def)
qed

lemma sleep_raises:
  assumes "\<not> sleeps secs"
  shows "sleep secs w = (Inl (sleep_error secs), w)"
  using assms by (auto simp: sleep_def sleeps_def sleep_error_def)

lemma capture_image_ok:
  assumes "filters f = Some p" and "sleeps (t + 2)"
  shows "capture_image env t f d n w =
           (Inr (), w\<lparr>trace := trace w @ capture_events env t f d n (ticks w),
                       ticks := Suc (ticks w)\<rparr>)"
  using assms(1)
  by (simp add: capture_image_def sleep_ok [OF assms(2)] capture_events_def emits_def emit_def
      now_def Let_def)

lemma capture_image_KeyError:
  assumes "filters f = None"
  shows "capture_image env t f d n w = (Inl (KeyError f), w)"
  using assms by (simp add: capture_image_def)

lemma capture_image_sleep_error:
  assumes "filters f = Some p" and "\<not> sleeps (t + 2)"
  shows "capture_image env t f d n w =
           (Inl (sleep_error (t + 2)),
            w\<lparr>trace := trace w @
               [Send_number ''ZWO EFW'' ''FILTER_SLOT'' ''FILTER_SLOT_VALUE'' (of_int p),
                Sleep 2,
                Send_number ''ZWO CCD ASI183MM Pro'' ''CCD_EXPOSURE'' ''CCD_EXPOSURE_VALUE'' t]\<rparr>)"
  using assms(1) by (simp add: capture_image_def sleep_raises [OF assms(2)] emits_def Let_def)

lemma capture_loop_ok:
  assumes "filters f = Some p" and "sleeps (t + 2)"
  shows "capture_loop env t f d js w =
           (Inr (), w\<lparr>trace := trace w @ loop_events env t f d js (ticks w),
                       ticks := ticks w + length js\<rparr>)"
proof (induction js arbitrary: w)
  case Nil
  show ?case by simp
next
  case (Cons i rest)
  show ?case
    by (simp add: Cons.IH capture_image_ok [OF assms] dither_trace)
qed

lemma capture_loop_extends:
  "\<exists>es. trace (snd (capture_loop env t f d js w)) = trace w @ es"
proof (induction js arbitrary: w)
  case Nil
  show ?case by simp
next
  case (Cons i rest)
  show ?case
  proof (cases "filters f")
    case None
    then show ?thesis by (simp add: capture_image_KeyError dither_trace)
  next
    case (Some p)
    show ?thesis
    proof (cases "sleeps (t + 2)")
      case True
      from Cons.IH [of "(if i \<noteq> 0 then dither w else w)
          \<lparr>trace := trace (if i \<noteq> 0 then dither w else w)
               @ capture_events env t f d (int i + 1) (ticks (if i \<noteq> 0 then dither w else w)),
           ticks := Suc (ticks (if i \<noteq> 0 then dither w else w))\<rparr>"]
      show ?thesis
        by (auto simp: capture_image_ok [OF Some True] dither_trace)
    next
      case False
      then show ?thesis
        by (simp add: capture_image_sleep_error [OF Some] dither_trace)
    qed
  qed
qed

lemma gate_passes:
  "fst (check_continue_sequence env a w) \<longleftrightarrow> 20 \<le> a \<or> lower (reply env) = ''y''"
  by (auto simp: check_continue_sequence_def)

lemma passes_gate_iff:
  "passes_gate env c \<longleftrightarrow> 20 \<le> altitude_of env c \<or> lower (reply env) = ''y''"
  by (simp add: passes_gate_def gate_passes)

lemma lower_char_y: "lower_char c = CHR ''y'' \<longleftrightarrow> c = CHR ''y'' \<or> c = CHR ''Y''"
  by (simp add: lower_char_def)

lemma lower_y: "lower r = ''y'' \<longleftrightarrow> r = ''y'' \<or> r = ''Y''"
proof (cases r)
  case Nil
  then show ?thesis by (simp add: lower_def)
next
  case (Cons c cs)
  then show ?thesis by (cases cs) (auto simp: lower_def lower_char_y)
qed

lemma lower_yes: "lower ''yes'' = ''yes''"
  by (simp add: lower_def lower_char_def)

lemma filters_dom: "filters f \<noteq> None \<longleftrightarrow> f \<in> {''L'', ''R'', ''G'', ''B'', ''H'', ''O''}"
  by (simp add: filters_def)

section \<open>The shape of a run\<close>

lemma upt_nat_pos: "0 < n \<Longrightarrow> [0..<nat n] = 0 # [1..<nat n]"
  by (simp add: upt_conv_Cons)

lemma sequence_unresolved:
  assumes "simbad env target = None"
  shows "observatory_sequence env target base f n t fresh =
           (Inr (), \<lparr>trace = [Simbad_query target,
                              Log ERROR (''Object '' @ target @ '' not found.''),
                              Log ERROR ''Target not found.''],
                     ticks = 0\<rparr>)"
  using assms
  by (simp add: observatory_sequence_def get_coordinates_def emit_def fresh_def)

lemma sequence_declined:
  assumes "simbad env target = Some c" and "altitude_of env c < 20"
    and "lower (reply env) \<noteq> ''y''"
  shows "observatory_sequence env target base f n t fresh =
           (Inr (), \<lparr>trace = gate_events env target c
                              @ [Log INFO ''Sequence aborted due to low altitude.''],
                     ticks = 0\<rparr>)"
  using assms
  by (simp add: observatory_sequence_def get_coordinates_def check_altitude_def
      check_continue_sequence_def gate_events_def emit_def fresh_def)

lemma sequence_start:
  assumes "simbad env target = Some c"
    and "20 \<le> altitude_of env c \<or> lower (reply env) = ''y''"
  shows "observatory_sequence env target base f n t fresh =
           (case capture_loop env t f (run_directory env base target) [0..<nat n]
                   \<lparr>trace = prelude env target base c, ticks = 1\<rparr> of
              (Inl e, w7) \<Rightarrow> (Inl e, w7)
            | (Inr u, w7) \<Rightarrow>
                (Inr (), w7\<lparr>trace := trace w7 @
                   [guide_stop_event,
                    Log INFO (''Sequence complete. Images stored in ''
                              @ run_directory env base target @ ''.'')]\<rparr>))"
  using assms
  by (auto simp: observatory_sequence_def get_coordinates_def check_altitude_def
      check_continue_sequence_def gate_events_def emit_def fresh_def create_directory_def
      now_def enable_multi_star_guiding_def start_guiding_def stop_guiding_def Let_def
      prelude_def run_directory_def guide_enable_event_def guide_start_event_def
      guide_stop_event_def PHD2_API_URL_def split: prod.splits sum.splits)

lemma sequence_imaged:
  assumes "simbad env target = Some c"
    and "20 \<le> altitude_of env c \<or> lower (reply env) = ''y''"
    and "n \<le> 0 \<or> (filters f \<noteq> None \<and> sleeps (t + 2))"
  shows "observatory_sequence env target base f n t fresh =
           (Inr (), \<lparr>trace = prelude env target base c
                              @ loop_events env t f (run_directory env base target)
                                  [0..<nat n] 1
                              @ [guide_stop_event,
                                 Log INFO (''Sequence complete. Images stored in ''
                                           @ run_directory env base target @ ''.'')],
                     ticks = Suc (nat n)\<rparr>)"
proof (cases "n \<le> 0")
  case True
  then show ?thesis by (simp add: sequence_start [OF assms(1,2)])
next
  case False
  with assms(3) obtain p where "filters f = Some p" and "sleeps (t + 2)" by auto
  then show ?thesis
    by (simp add: sequence_start [OF assms(1,2)] capture_loop_ok)
qed

lemma sequence_KeyError:
  assumes "simbad env target = Some c"
    and "20 \<le> altitude_of env c \<or> lower (reply env) = ''y''"
    and "0 < n" and "filters f = None"
  shows "observatory_sequence env target base f n t fresh =
           (Inl (KeyError f), \<lparr>trace = prelude env target base c, ticks = 1\<rparr>)"
  using assms(3,4)
  by (simp add: sequence_start [OF assms(1,2)] upt_nat_pos capture_image_KeyError)

lemma sequence_sleep_error:
  assumes "simbad env target = Some c"
    and "20 \<le> altitude_of env c \<or> lower (reply env) = ''y''"
    and "0 < n" and "filters f = Some p" and "\<not> sleeps (t + 2)"
  shows "observatory_sequence env target base f n t fresh =
           (Inl (sleep_error (t + 2)),
            \<lparr>trace = prelude env target base c @
               [Send_number ''ZWO EFW'' ''FILTER_SLOT'' ''FILTER_SLOT_VALUE'' (of_int p),
                Sleep 2,
                Send_number ''ZWO CCD ASI183MM Pro'' ''CCD_EXPOSURE'' ''CCD_EXPOSURE_VALUE'' t],
             ticks = 1\<rparr>)"
  using assms(3,4,5)
  by (simp add: sequence_start [OF assms(1,2)] upt_nat_pos capture_image_sleep_error)

lemma sequence_proceeds:
  assumes "simbad env target = Some c"
    and "20 \<le> altitude_of env c \<or> lower (reply env) = ''y''"
  shows "\<exists>es. trace (snd (observatory_sequence env target base f n t fresh)) =
           prelude env target base c @ es"
proof -
  obtain es where
    "trace (snd (capture_loop env t f (run_directory env base target) [0..<nat n]
                   \<lparr>trace = prelude env target base c, ticks = 1\<rparr>)) =
       prelude env target base c @ es"
    using capture_loop_extends [of env t f "run_directory env base target" "[0..<nat n]"
        "\<lparr>trace = prelude env target base c, ticks = 1\<rparr>"]
    by auto
  then show ?thesis
    by (auto simp: sequence_start [OF assms] split: prod.splits sum.splits)
qed

lemma sequence_returns_iff:
  assumes "simbad env target = Some c"
    and "20 \<le> altitude_of env c \<or> lower (reply env) = ''y''"
  shows "fst (observatory_sequence env target base f n t fresh) = Inr ()
         \<longleftrightarrow> n \<le> 0 \<or> (filters f \<noteq> None \<and> sleeps (t + 2))"
proof (cases "n \<le> 0 \<or> (filters f \<noteq> None \<and> sleeps (t + 2))")
  case True
  then show ?thesis by (simp add: sequence_imaged [OF assms])
next
  case False
  then have n: "0 < n" and bad: "filters f = None \<or> \<not> sleeps (t + 2)" by auto
  show ?thesis
  proof (cases "filters f")
    case None
    with False show ?thesis by (simp add: sequence_KeyError [OF assms n])
  next
    case (Some p)
    with bad have "\<not> sleeps (t + 2)" by simp
    with False Some show ?thesis by (simp add: sequence_sleep_error [OF assms n Some])
  qed
qed

lemma sequence_success_trace:
  assumes "simbad env target = Some c" and "passes_gate env c"
    and "sequence_result env target base f n t = Inr ()"
  shows "sequence_trace env target base f n t =
           prelude env target base c
           @ loop_events env t f (run_directory env base target) [0..<nat n] 1
           @ [guide_stop_event,
              Log INFO (''Sequence complete. Images stored in ''
                        @ run_directory env base target @ ''.'')]"
proof -
  from assms(2) have g: "20 \<le> altitude_of env c \<or> lower (reply env) = ''y''"
    by (simp add: passes_gate_iff)
  from assms(3) have "n \<le> 0 \<or> (filters f \<noteq> None \<and> sleeps (t + 2))"
    by (simp add: sequence_result_def sequence_returns_iff [OF assms(1) g])
  then show ?thesis
    by (simp add: sequence_trace_def sequence_imaged [OF assms(1) g])
qed

lemma target_declined:
  assumes "simbad env target = Some c" and "altitude_of env c < 20"
    and "lower (reply env) \<noteq> ''y''"
  shows "observatory_target env target fresh =
           \<lparr>trace = gate_events env target c @ [Log INFO ''Aborted slew due to low altitude.''],
            ticks = 0\<rparr>"
  using assms
  by (simp add: observatory_target_def get_coordinates_def check_altitude_def
      check_continue_sequence_def gate_events_def emit_def fresh_def)

lemma target_slewed:
  assumes "simbad env target = Some c"
    and "20 \<le> altitude_of env c \<or> lower (reply env) = ''y''"
  shows "observatory_target env target fresh =
           \<lparr>trace = gate_events env target c
                    @ [Send_coord ''iOptron IEQ Pro'' ''EQUATORIAL_EOD_COORD'' (ra_deg c) (dec_deg c),
                       Sleep 10,
                       Log INFO (''Slewed to RA: '' @ fmt_float env (ra_deg c) @ '', DEC: ''
                                 @ fmt_float env (dec_deg c))],
            ticks = 0\<rparr>"
  using assms
  by (auto simp: observatory_target_def get_coordinates_def check_altitude_def
      check_continue_sequence_def gate_events_def emit_def emits_def fresh_def slew_to_target_def)

section \<open>The events of the loop\<close>

lemma loop_exposures:
  assumes "filters f = Some p"
  shows "length (filter is_exposure_cmd (loop_events env t f d js k)) = length js"
  using assms
  by (induction js arbitrary: k) (simp_all add: capture_events_def dither_events_def Let_def)

lemma loop_saves:
  assumes "filters f = Some p"
  shows "length (filter is_save_cmd (loop_events env t f d js k)) = length js"
  using assms
  by (induction js arbitrary: k) (simp_all add: capture_events_def dither_events_def Let_def)

lemma loop_dither_starts:
  "length (filter is_dither_start (loop_events env t f d js k)) =
     length (filter (\<lambda>i. i \<noteq> 0) js)"
  by (induction js arbitrary: k)
    (simp_all add: capture_events_def dither_events_def Let_def split: option.splits)

lemma nonzero_upt: "length (filter (\<lambda>i. 0 < i) [0..<n]) = n - 1"
  by (induction n) auto

lemma loop_no_http: "Http_get u ps \<notin> set (loop_events env t f d js k)"
  by (induction js arbitrary: k)
    (simp_all add: capture_events_def dither_events_def Let_def split: option.splits)

lemma loop_concat:
  "loop_events env t f d [a..<b] (Suc a) =
     concat (map (\<lambda>i. (if i \<noteq> 0 then dither_events else [])
                        @ capture_events env t f d (int i + 1) (Suc i)) [a..<b])"
proof (induction "b - a" arbitrary: a)
  case 0
  then show ?case by simp
next
  case (Suc m)
  then have "a < b" and "m = b - Suc a" by simp_all
  then show ?case
    using Suc.hyps(1) [of "Suc a"] by (simp add: upt_conv_Cons)
qed

lemma drop_until_last:
  assumes "x \<notin> set xs"
  shows "dropWhile (\<lambda>e. e \<noteq> x) (xs @ x # ys) = x # ys"
  using assms by (induction xs) auto

section \<open>Digits and time stamps\<close>

lemma digit_cases:
  assumes "d < (10::nat)"
  shows "d = 0 \<or> d = 1 \<or> d = 2 \<or> d = 3 \<or> d = 4 \<or> d = 5 \<or> d = 6 \<or> d = 7 \<or> d = 8 \<or> d = 9"
  using assms by arith

lemma digit_char_props:
  assumes "d < 10"
  shows "is_digit (digit_char d)" and "digit_val (digit_char d) = d"
  using digit_cases [OF assms]
  by (auto simp: digit_char_def is_digit_def digit_val_def)

lemma str_nat_digits: "list_all is_digit (str_nat n)"
proof (induction n rule: str_nat.induct)
  case (1 n)
  show ?case
  proof (cases "n < 10")
    case True
    then show ?thesis by (simp add: str_nat.simps [of n] digit_char_props)
  next
    case False
    with 1 show ?thesis by (simp add: str_nat.simps [of n] digit_char_props)
  qed
qed

lemma str_nat_value: "nat_of_digits (str_nat n) = n"
proof (induction n rule: str_nat.induct)
  case (1 n)
  show ?case
  proof (cases "n < 10")
    case True
    then show ?thesis by (simp add: str_nat.simps [of n] nat_of_digits_def digit_char_props)
  next
    case False
    with 1 have "nat_of_digits (str_nat (n div 10)) = n div 10" by simp
    with False show ?thesis
      by (simp add: str_nat.simps [of n] nat_of_digits_def digit_char_props)
  qed
qed

lemma str_nat_length_pos: "0 < length (str_nat n)"
  by (cases "n < 10") (simp_all add: str_nat.simps [of n])

lemma str_nat_length: "n < 10 ^ k \<Longrightarrow> 0 < k \<Longrightarrow> length (str_nat n) \<le> k"
proof (induction k arbitrary: n)
  case 0
  then show ?case by simp
next
  case (Suc k)
  show ?case
  proof (cases "n < 10")
    case True
    then show ?thesis by (simp add: str_nat.simps [of n])
  next
    case False
    with Suc.prems have k: "0 < k" by (cases k) auto
    from Suc.prems have "n div 10 < 10 ^ k" by (simp add: less_mult_imp_div_less mult.commute)
    with Suc.IH k have "length (str_nat (n div 10)) \<le> k" by simp
    with False show ?thesis by (simp add: str_nat.simps [of n])
  qed
qed

lemma zfill_length: "length (zfill w s) = max w (length s)"
  by (simp add: zfill_def)

lemma zfill_digits: "list_all is_digit s \<Longrightarrow> list_all is_digit (zfill w s)"
  by (induction "w - length s") (auto simp: zfill_def is_digit_def list_all_iff)

lemma zeros_value: "foldl (\<lambda>a c. 10 * a + digit_val c) 0 (replicate m (CHR ''0'')) = 0"
  by (induction m) (simp_all add: digit_val_def)

lemma zfill_value: "nat_of_digits (zfill w s) = nat_of_digits s"
  by (simp add: zfill_def nat_of_digits_def zeros_value)

lemma field2:
  assumes "n < 100"
  shows "length (zfill 2 (str_nat n)) = 2" and "list_all is_digit (zfill 2 (str_nat n))"
proof -
  from assms have "n < 10 ^ 2" by simp
  then have "length (str_nat n) \<le> 2" by (rule str_nat_length) simp
  then show "length (zfill 2 (str_nat n)) = 2" by (simp add: zfill_length)
  show "list_all is_digit (zfill 2 (str_nat n))" by (simp add: zfill_digits str_nat_digits)
qed

lemma field4:
  assumes "n \<le> 9999"
  shows "length (zfill 4 (str_nat n)) = 4" and "list_all is_digit (zfill 4 (str_nat n))"
proof -
  from assms have "n < 10 ^ 4" by simp
  then have "length (str_nat n) \<le> 4" by (rule str_nat_length) simp
  then show "length (zfill 4 (str_nat n)) = 4" by (simp add: zfill_length)
  show "list_all is_digit (zfill 4 (str_nat n))" by (simp add: zfill_digits str_nat_digits)
qed

lemma fmt_04d_props:
  "list_all is_digit (fmt_04d (int i))" "nat_of_digits (fmt_04d (int i)) = i"
  "4 \<le> length (fmt_04d (int i))" "i \<le> 9999 \<Longrightarrow> length (fmt_04d (int i)) = 4"
proof -
  have f: "fmt_04d (int i) = zfill 4 (str_nat i)" by (simp add: fmt_04d_def)
  show "list_all is_digit (fmt_04d (int i))" by (simp add: f zfill_digits str_nat_digits)
  show "nat_of_digits (fmt_04d (int i)) = i" by (simp add: f zfill_value str_nat_value)
  show "4 \<le> length (fmt_04d (int i))" by (simp add: f zfill_length)
  show "i \<le> 9999 \<Longrightarrow> length (fmt_04d (int i)) = 4" by (simp add: f field4)
qed

lemma stamp_shape:
  assumes "valid_datetime dt"
  shows "is_stamp (strftime dt)"
proof -
  from assms have y: "year dt \<le> 9999" and m: "month dt < 100" and d: "day dt < 100"
    and h: "hour dt < 100" and mi: "minute dt < 100"
    by (simp_all add: valid_datetime_def)
  note f = field4 [OF y] field2 [OF m] field2 [OF d] field2 [OF h] field2 [OF mi]
  show ?thesis
    by (simp add: is_stamp_def strftime_def f nth_append is_digit_def)
qed

section \<open>Saved frames\<close>

lemma saved_paths_append: "saved_paths (xs @ ys) = saved_paths xs @ saved_paths ys"
  by (simp add: saved_paths_def)

lemma saved_paths_prelude: "saved_paths (prelude env target base c) = []"
  by (simp add: saved_paths_def prelude_def gate_events_def guide_enable_event_def
      guide_start_event_def)

lemma saved_paths_gate: "saved_paths (gate_events env target c) = []"
  by (simp add: saved_paths_def gate_events_def)

lemma saved_paths_dither: "saved_paths dither_events = []"
  by (simp add: saved_paths_def dither_events_def)

lemma saved_paths_capture:
  assumes "filters f = Some p"
  shows "saved_paths (capture_events env t f d (int a + 1) (Suc a)) = [frame_name env d f (Suc a)]"
  using assms
  by (simp add: saved_paths_def capture_events_def frame_name_def Let_def add.commute)

lemma saved_paths_tail:
  "saved_paths [guide_stop_event, Log INFO m] = []"
  by (simp add: saved_paths_def guide_stop_event_def)

lemma loop_saved_paths:
  assumes "filters f = Some p"
  shows "saved_paths (loop_events env t f d [a..<b] (Suc a)) =
           map (frame_name env d f) [Suc a..<Suc b]"
proof (induction "b - a" arbitrary: a)
  case 0
  then show ?case by (simp add: saved_paths_def)
next
  case (Suc m)
  then have ab: "a < b" and "m = b - Suc a" by simp_all
  then have ih: "saved_paths (loop_events env t f d [Suc a..<b] (Suc (Suc a))) =
      map (frame_name env d f) [Suc (Suc a)..<Suc b]"
    using Suc.hyps(1) [of "Suc a"] by simp
  have one: "saved_paths ((if a \<noteq> 0 then dither_events else [])
        @ capture_events env t f d (int a + 1) (Suc a)) = [frame_name env d f (Suc a)]"
    using saved_paths_capture [OF assms, of env t d a]
    by (cases "a = 0")
      (simp_all add: saved_paths_append saved_paths_dither saved_paths_def [of "[]"])
  from ab have l: "[a..<b] = a # [Suc a..<b]"
    and r: "[Suc a..<Suc b] = Suc a # [Suc (Suc a)..<Suc b]"
    by (simp_all add: upt_conv_Cons)
  have "saved_paths (loop_events env t f d (a # [Suc a..<b]) (Suc a)) =
      saved_paths ((if a \<noteq> 0 then dither_events else [])
        @ capture_events env t f d (int a + 1) (Suc a))
      @ saved_paths (loop_events env t f d [Suc a..<b] (Suc (Suc a)))"
    by (simp only: loop_events.simps saved_paths_append append_assoc)
  also have "\<dots> = frame_name env d f (Suc a) # map (frame_name env d f) [Suc (Suc a)..<Suc b]"
    by (simp only: one ih append_Cons append_Nil)
  also have "\<dots> = map (frame_name env d f) (Suc a # [Suc (Suc a)..<Suc b])"
    by (simp only: list.map)
  finally show ?case by (simp only: l r)
qed

lemma sequence_saved_paths:
  assumes "simbad env target = Some c" and "passes_gate env c"
    and "sequence_result env target base f n t = Inr ()"
  shows "saved_paths (sequence_trace env target base f n t) =
           map (frame_name env (run_directory env base target) f) [1..<Suc (nat n)]"
proof -
  let ?d = "run_directory env base target"
  from assms(2) have g: "20 \<le> altitude_of env c \<or> lower (reply env) = ''y''"
    by (simp add: passes_gate_iff)
  have loop: "saved_paths (loop_events env t f ?d [0..<nat n] 1) =
      map (frame_name env ?d f) [1..<Suc (nat n)]"
  proof (cases "n \<le> 0")
    case True
    then show ?thesis by (simp add: saved_paths_def)
  next
    case False
    with assms(3) obtain p where p: "filters f = Some p"
      by (auto simp: sequence_result_def sequence_returns_iff [OF assms(1) g])
    show ?thesis
      using loop_saved_paths [OF p, of env t ?d 0 "nat n"] by (simp only: One_nat_def)
  qed
  show ?thesis
    by (simp only: sequence_success_trace [OF assms] saved_paths_append saved_paths_prelude
        saved_paths_tail loop append_Nil append_Nil2)
qed

lemma saved_paths_all_runs:
  "saved_paths (sequence_trace env target base f n t) = []
   \<or> saved_paths (sequence_trace env target base f n t) =
       map (frame_name env (run_directory env base target) f) [1..<Suc (nat n)]"
proof (cases "simbad env target")
  case None
  then show ?thesis
    by (simp add: sequence_trace_def sequence_unresolved saved_paths_def)
next
  case (Some c)
  show ?thesis
  proof (cases "passes_gate env c")
    case False
    then have "altitude_of env c < 20" and "lower (reply env) \<noteq> ''y''"
      by (auto simp: passes_gate_iff)
    then show ?thesis
      by (simp add: sequence_trace_def sequence_declined [OF Some] saved_paths_append
          saved_paths_gate)
        (simp add: saved_paths_def)
  next
    case True
    then have g: "20 \<le> altitude_of env c \<or> lower (reply env) = ''y''"
      by (simp add: passes_gate_iff)
    show ?thesis
    proof (cases "sequence_result env target base f n t = Inr ()")
      case True
      with sequence_saved_paths [OF Some \<open>passes_gate env c\<close>] show ?thesis by blast
    next
      case False
      then have n: "0 < n" and bad: "filters f = None \<or> \<not> sleeps (t + 2)"
        by (auto simp: sequence_result_def sequence_returns_iff [OF Some g])
      show ?thesis
      proof (cases "filters f")
        case None
        then show ?thesis
          by (simp add: sequence_trace_def sequence_KeyError [OF Some g n] saved_paths_prelude)
      next
        case (Some p)
        with bad have neg: "\<not> sleeps (t + 2)" by simp
        have "saved_paths (sequence_trace env target base f n t) = []"
          by (simp add: sequence_trace_def
              sequence_sleep_error [OF \<open>simbad env target = Some c\<close> g n Some neg]
              saved_paths_append saved_paths_prelude)
            (simp add: saved_paths_def)
        then show ?thesis by simp
      qed
    qed
  qed
qed

section \<open>The motion writes of a run\<close>

lemma motion_writes_append: "motion_writes (xs @ ys) = motion_writes xs @ motion_writes ys"
  by (simp add: motion_writes_def)

lemma motion_writes_dither:
  "motion_writes dither_events =
     [(''TELESCOPE_MOTION_NS'', 1), (''TELESCOPE_MOTION_WE'', 1),
      (''TELESCOPE_MOTION_NS'', 0), (''TELESCOPE_MOTION_WE'', 0)]"
  by (simp add: motion_writes_def dither_events_def)

lemma motion_writes_capture: "motion_writes (capture_events env t f d n k) = []"
  by (cases "filters f") (auto simp: motion_writes_def capture_events_def Let_def)

lemma motion_writes_prelude: "motion_writes (prelude env target base c) = []"
  by (simp add: motion_writes_def prelude_def gate_events_def guide_enable_event_def
      guide_start_event_def)

lemma motion_writes_tail: "motion_writes [guide_stop_event, Log INFO m] = []"
  by (simp add: motion_writes_def guide_stop_event_def)

lemma motion_writes_loop:
  "motion_writes (loop_events env t f d js k) =
     concat (replicate (length (filter (\<lambda>i. 0 < i) js)) (motion_writes dither_events))"
proof (induction js arbitrary: k)
  case Nil
  show ?case by (simp add: motion_writes_def)
next
  case (Cons i rest)
  show ?case
    by (cases "i = 0")
      (simp_all add: motion_writes_append motion_writes_capture Cons.IH
        motion_writes_def [of "[]"])
qed

lemma motion_writes_run:
  assumes "simbad env target = Some c" and "passes_gate env c"
    and "sequence_result env target base f n t = Inr ()"
  shows "motion_writes (sequence_trace env target base f n t) =
           concat (replicate (nat n - 1) (motion_writes dither_events))"
  by (simp only: sequence_success_trace [OF assms] motion_writes_append motion_writes_prelude
      motion_writes_tail motion_writes_loop nonzero_upt append_Nil append_Nil2)

lemma no_negative_write:
  "filter (\<lambda>(p, v). v < 0) (concat (replicate m (motion_writes dither_events))) = []"
  by (induction m) (simp_all add: motion_writes_dither)

section \<open>The example session, evaluated\<close>

lemma replicate_numeral: "replicate (numeral k) x = x # replicate (pred_numeral k) x"
  by (simp add: numeral_eq_Suc)

lemma session_stamp: "strftime (clock session k) = ''20240807_2230UT''"
  by (simp add: session_def strftime_def zfill_def str_nat.simps digit_char_def
      replicate_numeral)

lemma session_directory: "run_directory session ''/images'' ''M42'' = ''/images/M42_20240807_2230UT''"
  by (simp add: run_directory_def session_stamp)

lemma low_session_stamp: "strftime (clock (low_session r) k) = ''20240807_2230UT''"
  by (simp add: low_session_def session_def strftime_def zfill_def str_nat.simps digit_char_def
      replicate_numeral)

lemma session_gate: "simbad session ''M42'' = Some M42" "passes_gate session M42"
  "altitude_of session M42 = 45"
  by (simp_all add: passes_gate_iff session_def)

lemma session_result: "sequence_result session ''M42'' ''/images'' ''R'' n 10 = Inr ()"
proof -
  have g: "20 \<le> altitude_of session M42 \<or> lower (reply session) = ''y''"
    by (simp add: session_gate)
  show ?thesis
    by (simp add: sequence_result_def sequence_returns_iff [OF session_gate(1) g] filters_def
        sleeps_def)
qed

lemma session_sleep_errors:
  "sequence_result session ''M42'' ''/images'' ''R'' 1 10000000000 = Inl OverflowError"
  "sequence_result session ''M42'' ''/images'' ''R'' 1 (- 5) = Inl ValueError"
proof -
  have g: "20 \<le> altitude_of session M42 \<or> lower (reply session) = ''y''"
    by (simp add: session_gate)
  have n: "(0::int) < 1" by simp
  have r: "filters ''R'' = Some 2" by (simp add: filters_def)
  have big: "\<not> sleeps (10000000000 + 2)" and neg: "\<not> sleeps (- 5 + 2)"
    by (simp_all add: sleeps_def)
  show "sequence_result session ''M42'' ''/images'' ''R'' 1 10000000000 = Inl OverflowError"
    by (simp add: sequence_result_def sequence_sleep_error [OF session_gate(1) g n r big]
        sleep_error_def)
  show "sequence_result session ''M42'' ''/images'' ''R'' 1 (- 5) = Inl ValueError"
    by (simp add: sequence_result_def sequence_sleep_error [OF session_gate(1) g n r neg]
        sleep_error_def)
qed

lemma session_valid: "\<forall>k. valid_datetime (clock session k)"
  by (simp add: session_def valid_datetime_def)

lemma upt_nat_2: "[0..<nat 2] = [0, 1]" "[0..<2] = [0, 1]"
  by (simp_all add: upt_conv_Cons)

lemma upt_1_3: "[Suc 0..<3] = [Suc 0, 2]"
  by (simp add: upt_conv_Cons)

lemma fmt_04d_small: "fmt_04d 1 = ''0001''" "fmt_04d 2 = ''0002''" "fmt_04d 3 = ''0003''"
  by (simp_all add: fmt_04d_def zfill_def str_nat.simps digit_char_def replicate_numeral)

section \<open>Claims\<close>

text \<open>
  \<^bold>\<open>C1.\<close>  Take a run with \<open>exposure_count \<ge> 1\<close> whose target resolves, which passes the
  gate and which returns without raising.  It has issued exactly \<open>exposure_count\<close>
  exposure commands and as many save commands, one per capture, and exactly
  \<open>exposure_count - 1\<close> dither starts, and no motion command of the mount comes before
  the first command of the first capture.
\<close>

theorem capture_and_dither_counts:
  assumes "simbad env target = Some c" and "passes_gate env c" and "1 \<le> exposure_count"
    and "sequence_result env target base_directory filter_name exposure_count exposure_time
           = Inr ()"
  shows "int (length (filter is_exposure_cmd
           (sequence_trace env target base_directory filter_name exposure_count
              exposure_time))) = exposure_count
       \<and> int (length (filter is_save_cmd
           (sequence_trace env target base_directory filter_name exposure_count
              exposure_time))) = exposure_count
       \<and> int (length (filter is_dither_start
           (sequence_trace env target base_directory filter_name exposure_count
              exposure_time))) = exposure_count - 1
       \<and> filter is_dither_cmd
           (takeWhile (\<lambda>e. \<not> is_capture_cmd e)
              (sequence_trace env target base_directory filter_name exposure_count
                 exposure_time)) = []"
proof (intro conjI)
  from assms(2) have g: "20 \<le> altitude_of env c \<or> lower (reply env) = ''y''"
    by (simp add: passes_gate_iff)
  from assms(3,4) obtain p where p: "filters filter_name = Some p"
    by (auto simp: sequence_result_def sequence_returns_iff [OF assms(1) g])
  note tr = sequence_success_trace [OF assms(1,2,4)]
  have pre: "filter is_exposure_cmd (prelude env target base_directory c) = []"
    "filter is_save_cmd (prelude env target base_directory c) = []"
    "filter is_dither_start (prelude env target base_directory c) = []"
    by (simp_all add: prelude_def gate_events_def guide_enable_event_def guide_start_event_def)
  show "int (length (filter is_exposure_cmd
               (sequence_trace env target base_directory filter_name exposure_count
                  exposure_time))) = exposure_count"
    using assms(3) by (simp add: tr pre loop_exposures [OF p] guide_stop_event_def)
  show "int (length (filter is_save_cmd
               (sequence_trace env target base_directory filter_name exposure_count
                  exposure_time))) = exposure_count"
    using assms(3) by (simp add: tr pre loop_saves [OF p] guide_stop_event_def)
  show "int (length (filter is_dither_start
               (sequence_trace env target base_directory filter_name exposure_count
                  exposure_time))) = exposure_count - 1"
    using assms(3)
    by (simp add: tr pre loop_dither_starts nonzero_upt guide_stop_event_def)
  from assms(3) have pos: "0 < exposure_count" by simp
  show "filter is_dither_cmd
               (takeWhile (\<lambda>e. \<not> is_capture_cmd e)
                  (sequence_trace env target base_directory filter_name exposure_count
                     exposure_time)) = []"
    by (simp add: tr upt_nat_pos [OF pos] p capture_events_def Let_def prelude_def
        gate_events_def guide_enable_event_def guide_start_event_def)
qed

theorem capture_and_dither_counts_witness:
  "simbad session ''M42'' = Some M42 \<and> passes_gate session M42 \<and> (1::int) \<le> 3
   \<and> sequence_result session ''M42'' ''/images'' ''R'' 3 10 = Inr ()
   \<and> int (length (filter is_exposure_cmd
        (sequence_trace session ''M42'' ''/images'' ''R'' 3 10))) = 3
   \<and> int (length (filter is_save_cmd
        (sequence_trace session ''M42'' ''/images'' ''R'' 3 10))) = 3
   \<and> int (length (filter is_dither_start
        (sequence_trace session ''M42'' ''/images'' ''R'' 3 10))) = 2
   \<and> filter is_dither_cmd
        (takeWhile (\<lambda>e. \<not> is_capture_cmd e)
           (sequence_trace session ''M42'' ''/images'' ''R'' 3 10)) = []"
proof -
  have h3: "(1::int) \<le> 3" by simp
  show ?thesis
    using session_gate(1,2) h3 session_result [of 3]
      capture_and_dither_counts [OF session_gate(1,2) h3 session_result [of 3]]
    by simp
qed

text \<open>
  Without the restriction to runs that return, the count fails: with the filter \<open>X\<close>
  and two exposures asked for, the first capture raises \<open>KeyError\<close> before it sends
  anything, so the run passes resolution and the gate and yet exposes no frame and never
  dithers.
\<close>

theorem capture_count_counterexample:
  "simbad session ''M42'' = Some M42 \<and> passes_gate session M42
   \<and> sequence_result session ''M42'' ''/images'' ''X'' 2 30 = Inl (KeyError ''X'')
   \<and> filter is_exposure_cmd (sequence_trace session ''M42'' ''/images'' ''X'' 2 30) = []
   \<and> filter is_dither_start (sequence_trace session ''M42'' ''/images'' ''X'' 2 30) = []"
proof -
  have g: "20 \<le> altitude_of session M42 \<or> lower (reply session) = ''y''"
    by (simp add: session_gate)
  have x: "filters ''X'' = None" by (simp add: filters_def)
  have n: "(0::int) < 2" by simp
  show ?thesis
    by (simp add: session_gate sequence_result_def sequence_trace_def
        sequence_KeyError [OF session_gate(1) g n x]
        prelude_def gate_events_def guide_enable_event_def guide_start_event_def)
qed

text \<open>
  \<^bold>\<open>C2.\<close>  At 20 degrees or more \<open>check_continue_sequence\<close> returns \<open>True\<close> and leaves the
  world as it is: nothing is asked.  Below 20 degrees it issues the prompt, and its answer
  is whether the lower-cased reply is \<open>y\<close>.  After any other reply both commands stop at
  the gate: \<open>target\<close> and \<open>sequence\<close> each write one log entry after the prompt and issue
  no slew, no directory, no guiding call and no capture.
\<close>

theorem altitude_gate:
  "(20 \<le> altitude \<longrightarrow> check_continue_sequence env altitude w = (True, w))
   \<and> (altitude < 20 \<longrightarrow>
        check_continue_sequence env altitude w =
          (lower (reply env) = ''y'',
           emit (Input_prompt (''Target is at '' @ fmt_2f env altitude
                               @ '' degrees altitude, continue? (y/n): '')) w))
   \<and> (simbad env target = Some c \<and> altitude_of env c < 20 \<and> lower (reply env) \<noteq> ''y'' \<longrightarrow>
        observatory_target env target fresh =
          \<lparr>trace = [Simbad_query target,
                    Get_property ''iOptron IEQ Pro'' ''GEOGRAPHIC_COORD'',
                    Input_prompt (''Target is at '' @ fmt_2f env (altitude_of env c)
                                  @ '' degrees altitude, continue? (y/n): ''),
                    Log INFO ''Aborted slew due to low altitude.''],
           ticks = 0\<rparr>
        \<and> observatory_sequence env target base_directory filter_name exposure_count
            exposure_time fresh =
          (Inr (),
           \<lparr>trace = [Simbad_query target,
                     Get_property ''iOptron IEQ Pro'' ''GEOGRAPHIC_COORD'',
                     Input_prompt (''Target is at '' @ fmt_2f env (altitude_of env c)
                                   @ '' degrees altitude, continue? (y/n): ''),
                     Log INFO ''Sequence aborted due to low altitude.''],
            ticks = 0\<rparr>))"
proof (intro conjI impI)
  assume "20 \<le> altitude"
  then show "check_continue_sequence env altitude w = (True, w)"
    by (simp add: check_continue_sequence_def)
next
  assume "altitude < 20"
  then show "check_continue_sequence env altitude w =
          (lower (reply env) = ''y'',
           emit (Input_prompt (''Target is at '' @ fmt_2f env altitude
                               @ '' degrees altitude, continue? (y/n): '')) w)"
    by (simp add: check_continue_sequence_def)
next
  assume a: "simbad env target = Some c \<and> altitude_of env c < 20 \<and> lower (reply env) \<noteq> ''y''"
  then show "observatory_target env target fresh =
          \<lparr>trace = [Simbad_query target,
                    Get_property ''iOptron IEQ Pro'' ''GEOGRAPHIC_COORD'',
                    Input_prompt (''Target is at '' @ fmt_2f env (altitude_of env c)
                                  @ '' degrees altitude, continue? (y/n): ''),
                    Log INFO ''Aborted slew due to low altitude.''],
           ticks = 0\<rparr>"
    by (simp add: target_declined gate_events_def)
next
  assume a: "simbad env target = Some c \<and> altitude_of env c < 20 \<and> lower (reply env) \<noteq> ''y''"
  then show "observatory_sequence env target base_directory filter_name exposure_count
            exposure_time fresh =
          (Inr (),
           \<lparr>trace = [Simbad_query target,
                     Get_property ''iOptron IEQ Pro'' ''GEOGRAPHIC_COORD'',
                     Input_prompt (''Target is at '' @ fmt_2f env (altitude_of env c)
                                   @ '' degrees altitude, continue? (y/n): ''),
                     Log INFO ''Sequence aborted due to low altitude.''],
            ticks = 0\<rparr>)"
    by (simp add: sequence_declined gate_events_def)
qed

theorem altitude_gate_witness:
  "check_continue_sequence session 45 fresh = (True, fresh)
   \<and> check_continue_sequence (low_session ''n'') 12 fresh =
       (False,
        \<lparr>trace = [Input_prompt ''Target is at 12.00 degrees altitude, continue? (y/n): ''],
         ticks = 0\<rparr>)
   \<and> observatory_target (low_session ''n'') ''M42'' fresh =
       \<lparr>trace = [Simbad_query ''M42'',
                 Get_property ''iOptron IEQ Pro'' ''GEOGRAPHIC_COORD'',
                 Input_prompt ''Target is at 12.00 degrees altitude, continue? (y/n): '',
                 Log INFO ''Aborted slew due to low altitude.''],
        ticks = 0\<rparr>
   \<and> observatory_sequence (low_session ''n'') ''M42'' ''/images'' ''R'' 5 30 fresh =
       (Inr (),
        \<lparr>trace = [Simbad_query ''M42'',
                  Get_property ''iOptron IEQ Pro'' ''GEOGRAPHIC_COORD'',
                  Input_prompt ''Target is at 12.00 degrees altitude, continue? (y/n): '',
                  Log INFO ''Sequence aborted due to low altitude.''],
         ticks = 0\<rparr>)"
  using altitude_gate [where altitude = 45 and env = session and w = fresh
      and target = "''M42''" and c = M42]
    altitude_gate [where altitude = 12 and env = "low_session ''n''" and w = fresh
      and target = "''M42''" and c = M42 and base_directory = "''/images''"
      and filter_name = "''R''" and exposure_count = 5 and exposure_time = 30]
  by (simp add: low_session_def session_def lower_def lower_char_def emit_def fresh_def)

text \<open>
  \<^bold>\<open>C3.\<close>  When the resolver has no result for the target name, the sequence command
  returns after exactly three events: the query itself and two error log entries (one
  written by \<open>get_coordinates\<close>, one by \<open>observatory_sequence\<close>).  The trace holds no call
  of the device client or the guiding daemon and no directory is created.
\<close>

theorem unresolved_target_only_logs:
  assumes "simbad env target = None"
  shows "observatory_sequence env target base_directory filter_name exposure_count
           exposure_time fresh =
           (Inr (), \<lparr>trace = [Simbad_query target,
                              Log ERROR (''Object '' @ target @ '' not found.''),
                              Log ERROR ''Target not found.''],
                     ticks = 0\<rparr>)
       \<and> filter is_device_cmd
           (trace (snd (observatory_sequence env target base_directory filter_name
                          exposure_count exposure_time fresh))) = []
       \<and> filter is_makedirs
           (trace (snd (observatory_sequence env target base_directory filter_name
                          exposure_count exposure_time fresh))) = []"
  by (simp add: sequence_unresolved [OF assms])

theorem unresolved_target_only_logs_witness:
  "simbad session ''Ghost'' = None
   \<and> observatory_sequence session ''Ghost'' ''/images'' ''R'' 5 30 fresh =
       (Inr (), \<lparr>trace = [Simbad_query ''Ghost'',
                          Log ERROR ''Object Ghost not found.'',
                          Log ERROR ''Target not found.''],
                 ticks = 0\<rparr>)
   \<and> filter is_device_cmd
       (trace (snd (observatory_sequence session ''Ghost'' ''/images'' ''R'' 5 30 fresh))) = []
   \<and> filter is_makedirs
       (trace (snd (observatory_sequence session ''Ghost'' ''/images'' ''R'' 5 30 fresh))) = []"
proof -
  have h: "simbad session ''Ghost'' = None" by (simp add: session_def)
  show ?thesis
    using h unresolved_target_only_logs [OF h, of "''/images''" "''R''" 5 30] by simp
qed

text \<open>
  \<^bold>\<open>C4.\<close>  In a run that resolves its target, passes the gate and returns, guiding is started
  exactly once and stopped exactly once, nothing is sent to the filter wheel or the camera
  before the guide-start call or from the guide-stop call on, and all \<open>exposure_count\<close>
  exposures are in the trace: every capture lies between the two calls.
\<close>

theorem guiding_brackets_captures:
  assumes "simbad env target = Some c" and "passes_gate env c"
    and "sequence_result env target base_directory filter_name exposure_count exposure_time
           = Inr ()"
  shows "length (filter (\<lambda>e. e = guide_start_event)
           (sequence_trace env target base_directory filter_name exposure_count
              exposure_time)) = 1
       \<and> length (filter (\<lambda>e. e = guide_stop_event)
           (sequence_trace env target base_directory filter_name exposure_count
              exposure_time)) = 1
       \<and> filter is_capture_cmd
           (takeWhile (\<lambda>e. e \<noteq> guide_start_event)
              (sequence_trace env target base_directory filter_name exposure_count
                 exposure_time)) = []
       \<and> filter is_capture_cmd
           (dropWhile (\<lambda>e. e \<noteq> guide_stop_event)
              (sequence_trace env target base_directory filter_name exposure_count
                 exposure_time)) = []
       \<and> length (filter is_exposure_cmd
           (sequence_trace env target base_directory filter_name exposure_count
              exposure_time)) = nat exposure_count"
proof -
  let ?d = "run_directory env base_directory target"
  let ?loop = "loop_events env exposure_time filter_name ?d [0..<nat exposure_count] 1"
  let ?done = "Log INFO (''Sequence complete. Images stored in '' @ ?d @ ''.'')"
  note tr = sequence_success_trace [OF assms]
  from assms(2) have g: "20 \<le> altitude_of env c \<or> lower (reply env) = ''y''"
    by (simp add: passes_gate_iff)
  have no_start: "filter (\<lambda>e. e = guide_start_event) ?loop = []"
    and no_stop: "guide_stop_event \<notin> set ?loop"
    using loop_no_http [of _ _ env exposure_time filter_name ?d "[0..<nat exposure_count]" 1]
    by (auto simp: filter_empty_conv guide_start_event_def guide_stop_event_def)
  have pre_stop: "guide_stop_event \<notin> set (prelude env target base_directory c)"
    by (simp add: prelude_def gate_events_def guide_enable_event_def guide_start_event_def
        guide_stop_event_def)
  have starts: "length (filter (\<lambda>e. e = guide_start_event)
           (sequence_trace env target base_directory filter_name exposure_count
              exposure_time)) = 1"
    using no_start
    by (simp add: tr prelude_def gate_events_def guide_enable_event_def guide_start_event_def
        guide_stop_event_def)
  have stops: "length (filter (\<lambda>e. e = guide_stop_event)
           (sequence_trace env target base_directory filter_name exposure_count
              exposure_time)) = 1"
    using no_stop pre_stop by (auto simp: tr filter_empty_conv guide_stop_event_def)
  have before: "filter is_capture_cmd
           (takeWhile (\<lambda>e. e \<noteq> guide_start_event)
              (sequence_trace env target base_directory filter_name exposure_count
                 exposure_time)) = []"
    by (simp add: tr prelude_def gate_events_def guide_enable_event_def
        guide_start_event_def)
  have "dropWhile (\<lambda>e. e \<noteq> guide_stop_event)
          ((prelude env target base_directory c @ ?loop) @ guide_stop_event # [?done]) =
        guide_stop_event # [?done]"
    using no_stop pre_stop by (intro drop_until_last) simp
  then have after: "filter is_capture_cmd
           (dropWhile (\<lambda>e. e \<noteq> guide_stop_event)
              (sequence_trace env target base_directory filter_name exposure_count
                 exposure_time)) = []"
    by (simp add: tr guide_stop_event_def)
  have exposures: "length (filter is_exposure_cmd
           (sequence_trace env target base_directory filter_name exposure_count
              exposure_time)) = nat exposure_count"
  proof (cases "exposure_count \<le> 0")
    case True
    then show ?thesis
      by (simp add: tr prelude_def gate_events_def guide_enable_event_def
          guide_start_event_def guide_stop_event_def)
  next
    case False
    with assms(3) obtain p where p: "filters filter_name = Some p"
      by (auto simp: sequence_result_def sequence_returns_iff [OF assms(1) g])
    show ?thesis
      by (simp add: tr loop_exposures [OF p] prelude_def gate_events_def
          guide_enable_event_def guide_start_event_def guide_stop_event_def)
  qed
  from starts stops before after exposures show ?thesis by blast
qed

theorem guiding_brackets_captures_witness:
  "simbad session ''M42'' = Some M42 \<and> passes_gate session M42
   \<and> sequence_result session ''M42'' ''/images'' ''R'' 3 10 = Inr ()
   \<and> length (filter (\<lambda>e. e = guide_start_event)
        (sequence_trace session ''M42'' ''/images'' ''R'' 3 10)) = 1
   \<and> length (filter (\<lambda>e. e = guide_stop_event)
        (sequence_trace session ''M42'' ''/images'' ''R'' 3 10)) = 1
   \<and> filter is_capture_cmd
        (takeWhile (\<lambda>e. e \<noteq> guide_start_event)
           (sequence_trace session ''M42'' ''/images'' ''R'' 3 10)) = []
   \<and> filter is_capture_cmd
        (dropWhile (\<lambda>e. e \<noteq> guide_stop_event)
           (sequence_trace session ''M42'' ''/images'' ''R'' 3 10)) = []
   \<and> length (filter is_exposure_cmd
        (sequence_trace session ''M42'' ''/images'' ''R'' 3 10)) = 3"
  using session_gate(1,2) session_result [of 3]
    guiding_brackets_captures [OF session_gate(1,2) session_result [of 3]]
  by simp

text \<open>
  \<^bold>\<open>C5.\<close>  \<open>enable_multi_star_guiding\<close> and \<open>start_guiding\<close> do report failure when the
  daemon's status is not \<open>OK\<close>, but \<open>observatory_sequence\<close> drops both answers: with a
  daemon that answers \<open>ERROR\<close> to every call the run still exposes and saves its frame and
  logs completion, and nothing about guiding is reported.
\<close>

theorem guiding_failure_ignored:
  "\<not> fst (enable_multi_star_guiding failing_guider fresh)
   \<and> \<not> fst (start_guiding failing_guider fresh)
   \<and> observatory_sequence failing_guider ''M42'' ''/images'' ''R'' 1 10 fresh =
       (Inr (),
        \<lparr>trace =
           [Simbad_query ''M42'',
            Get_property ''iOptron IEQ Pro'' ''GEOGRAPHIC_COORD'',
            Makedirs ''/images/M42_20240807_2230UT'',
            Http_get ''http://localhost:4400/set_dec_guide_mode'' [(''mode'', ''multistar'')],
            Http_get ''http://localhost:4400/guide'' [],
            Send_number ''ZWO EFW'' ''FILTER_SLOT'' ''FILTER_SLOT_VALUE'' 2,
            Sleep 2,
            Send_number ''ZWO CCD ASI183MM Pro'' ''CCD_EXPOSURE'' ''CCD_EXPOSURE_VALUE'' 10,
            Sleep 12,
            Send_text ''ZWO CCD ASI183MM Pro'' ''CCD_SAVE'' ''CCD_SAVE_PATH''
              ''/images/M42_20240807_2230UT/R_20240807_2230UT_0001.fits'',
            Log INFO ''Captured /images/M42_20240807_2230UT/R_20240807_2230UT_0001.fits'',
            Http_get ''http://localhost:4400/stop_capture'' [],
            Log INFO ''Sequence complete. Images stored in /images/M42_20240807_2230UT.''],
         ticks = 2\<rparr>)"
proof -
  have c: "simbad failing_guider ''M42'' = Some M42"
    and g: "20 \<le> altitude_of failing_guider M42 \<or> lower (reply failing_guider) = ''y''"
    and s: "strftime (clock failing_guider k) = ''20240807_2230UT''" for k
    using session_stamp [of k] by (simp_all add: failing_guider_def session_def)
  have ok: "1 \<le> (0::int) \<or> (filters ''R'' \<noteq> None \<and> sleeps (10 + 2))"
    by (simp add: filters_def sleeps_def)
  have u: "[0..<nat 1] = [0]" by simp
  have run: "observatory_sequence failing_guider ''M42'' ''/images'' ''R'' 1 10 fresh =
      (Inr (), \<lparr>trace = prelude failing_guider ''M42'' ''/images'' M42
                 @ loop_events failing_guider 10 ''R''
                     (run_directory failing_guider ''/images'' ''M42'') [0] 1
                 @ [guide_stop_event,
                    Log INFO (''Sequence complete. Images stored in ''
                              @ run_directory failing_guider ''/images'' ''M42'' @ ''.'')],
                ticks = Suc (nat 1)\<rparr>)"
    using sequence_imaged [OF c g, of 1 "''R''" 10 "''/images''"] ok by (simp only: u)
  have a: "altitude_of failing_guider M42 = 45"
    by (simp add: failing_guider_def session_def)
  have b: "\<not> fst (enable_multi_star_guiding failing_guider fresh)"
    "\<not> fst (start_guiding failing_guider fresh)"
    by (simp_all add: enable_multi_star_guiding_def start_guiding_def failing_guider_def)
  show ?thesis
    by (simp add: b run prelude_def gate_events_def run_directory_def s a
        guide_enable_event_def guide_start_event_def guide_stop_event_def capture_events_def
        filters_def Let_def fmt_04d_small)
qed

text \<open>
  \<^bold>\<open>C6.\<close>  Whatever the run, the frames it asks the camera to save are either none (the run
  stopped before its first save) or, in order, \<open>frame_name\<close> of the indices 1 to
  \<open>exposure_count\<close> in the run's directory; a run that resolves, passes the gate and
  returns saves them all.  \<open>frame_name\<close> is the directory, a slash, the filter, the time
  stamp of the capture's clock reading in the shape \<open>YYYYMMDD_HHMMUT\<close>, the index and
  \<open>.fits\<close>.  The index is written in decimal digits and reads back as the index itself,
  so it starts at 1 and grows by one per capture; it is padded with zeros to at least four
  digits, and has exactly four up to index 9999.
\<close>

theorem frame_names:
  assumes "\<forall>k. valid_datetime (clock env k)"
  shows "(saved_paths (sequence_trace env target base_directory filter_name exposure_count
            exposure_time) = []
          \<or> saved_paths (sequence_trace env target base_directory filter_name exposure_count
               exposure_time) =
              map (frame_name env (run_directory env base_directory target) filter_name)
                [1..<Suc (nat exposure_count)])
       \<and> (simbad env target = Some c \<and> passes_gate env c
            \<and> sequence_result env target base_directory filter_name exposure_count
                 exposure_time = Inr () \<longrightarrow>
            saved_paths (sequence_trace env target base_directory filter_name exposure_count
              exposure_time) =
              map (frame_name env (run_directory env base_directory target) filter_name)
                [1..<Suc (nat exposure_count)])
       \<and> frame_name env directory filter_name i =
            directory @ ''/'' @ filter_name @ ''_'' @ strftime (clock env i) @ ''_''
            @ fmt_04d (int i) @ ''.fits''
       \<and> is_stamp (strftime (clock env i))
       \<and> list_all is_digit (fmt_04d (int i))
       \<and> nat_of_digits (fmt_04d (int i)) = i
       \<and> 4 \<le> length (fmt_04d (int i))
       \<and> (i \<le> 9999 \<longrightarrow> length (fmt_04d (int i)) = 4)"
proof -
  from assms have "valid_datetime (clock env i)" by simp
  then have stamp: "is_stamp (strftime (clock env i))" by (rule stamp_shape)
  have name: "frame_name env directory filter_name i =
            directory @ ''/'' @ filter_name @ ''_'' @ strftime (clock env i) @ ''_''
            @ fmt_04d (int i) @ ''.fits''"
    by (simp add: frame_name_def)
  show ?thesis
    using saved_paths_all_runs [of env target base_directory filter_name exposure_count
        exposure_time]
      sequence_saved_paths [of env target c base_directory filter_name exposure_count
        exposure_time]
      stamp name fmt_04d_props [of i]
    by blast
qed

theorem frame_names_witness:
  "(\<forall>k. valid_datetime (clock session k))
   \<and> saved_paths (sequence_trace session ''M42'' ''/images'' ''R'' 2 10) =
       [''/images/M42_20240807_2230UT/R_20240807_2230UT_0001.fits'',
        ''/images/M42_20240807_2230UT/R_20240807_2230UT_0002.fits'']
   \<and> is_stamp ''20240807_2230UT''
   \<and> nat_of_digits ''0002'' = 2
   \<and> length ''0002'' = 4"
proof -
  have names: "frame_name session ''/images/M42_20240807_2230UT'' ''R'' 1 =
      ''/images/M42_20240807_2230UT/R_20240807_2230UT_0001.fits''"
    "frame_name session ''/images/M42_20240807_2230UT'' ''R'' 2 =
      ''/images/M42_20240807_2230UT/R_20240807_2230UT_0002.fits''"
    by (simp_all add: frame_name_def session_stamp fmt_04d_small)
  show ?thesis
    using session_valid names
      frame_names [OF session_valid, of "''M42''" "''/images''" "''R''" 2 10 M42
        "''/images/M42_20240807_2230UT''" 2]
    by (simp add: session_gate session_result session_directory upt_1_3 session_stamp
        fmt_04d_small)
qed

text \<open>
  The index is not always four digits long: the last frame of a run of 10000 exposures is
  saved under the five-digit index \<open>10000\<close>.
\<close>

theorem frame_index_counterexample:
  "last (saved_paths (sequence_trace session ''M42'' ''/images'' ''R'' 10000 10)) =
     ''/images/M42_20240807_2230UT/R_20240807_2230UT_10000.fits''
   \<and> fmt_04d 10000 = ''10000''
   \<and> length (fmt_04d 10000) = 5"
proof -
  have f: "fmt_04d 10000 = ''10000''"
    by (simp add: fmt_04d_def zfill_def str_nat.simps digit_char_def)
  have "saved_paths (sequence_trace session ''M42'' ''/images'' ''R'' 10000 10) =
      map (frame_name session ''/images/M42_20240807_2230UT'' ''R'') [1..<Suc (nat 10000)]"
    using sequence_saved_paths [OF session_gate(1,2) session_result [of 10000]]
    by (simp only: session_directory)
  moreover have "[1..<Suc (nat 10000)] = [1..<nat 10000] @ [nat 10000]"
    by (rule upt_Suc_append) simp
  ultimately have "last (saved_paths (sequence_trace session ''M42'' ''/images'' ''R'' 10000 10))
      = frame_name session ''/images/M42_20240807_2230UT'' ''R'' (nat 10000)"
    by (simp only: map_append list.map last_snoc)
  then show ?thesis
    by (simp add: frame_name_def session_stamp f)
qed

text \<open>
  \<^bold>\<open>C7.\<close>  For a filter identifier outside the table L, R, G, B, H, O the capture raises
  \<open>KeyError\<close> at the lookup, before anything is sent: the world is returned unchanged, so
  no filter position at all is commanded, a default one included.
\<close>

theorem unknown_filter_lookup_failure:
  assumes "filter_name \<notin> {''L'', ''R'', ''G'', ''B'', ''H'', ''O''}"
  shows "capture_image env exposure_time filter_name directory count w =
           (Inl (KeyError filter_name), w)"
  using assms by (simp add: capture_image_def filters_def)

theorem unknown_filter_lookup_failure_witness:
  "''X'' \<notin> {''L'', ''R'', ''G'', ''B'', ''H'', ''O''}
   \<and> capture_image session 30 ''X'' ''/images/M42_20240807_2230UT'' 1 fresh =
       (Inl (KeyError ''X''), fresh)"
proof -
  have h: "''X'' \<notin> {''L'', ''R'', ''G'', ''B'', ''H'', ''O''}" by simp
  show ?thesis
    using h unknown_filter_lookup_failure [OF h, of session 30 "''/images/M42_20240807_2230UT''" 1 fresh]
    by simp
qed

text \<open>
  \<^bold>\<open>C8.\<close>  A dither writes 1 to the north-south motion property of the mount, sleeps one
  second, writes 1 to the west-east motion property, sleeps one second, and then writes 0 to
  both properties, with no delay between the last two writes.  In a run that resolves its
  target, passes the gate and returns, the loop issues, for every index but the first,
  these six events immediately followed by the events of that index's capture; the motion
  writes of the whole run are this group of four, once per exposure after the first, and
  none of them carries a negative value: the axes are driven and released, never reversed.
\<close>

theorem dither_pulses:
  "dither w = w\<lparr>trace := trace w @ dither_events\<rparr>
   \<and> dither_events =
       [Send_number ''iOptron IEQ Pro'' ''TELESCOPE_MOTION_NS'' ''TELESCOPE_MOTION_NS_VALUE'' 1,
        Sleep 1,
        Send_number ''iOptron IEQ Pro'' ''TELESCOPE_MOTION_WE'' ''TELESCOPE_MOTION_WE_VALUE'' 1,
        Sleep 1,
        Send_number ''iOptron IEQ Pro'' ''TELESCOPE_MOTION_NS'' ''TELESCOPE_MOTION_NS_VALUE'' 0,
        Send_number ''iOptron IEQ Pro'' ''TELESCOPE_MOTION_WE'' ''TELESCOPE_MOTION_WE_VALUE'' 0]
   \<and> (simbad env target = Some c \<and> passes_gate env c
        \<and> sequence_result env target base_directory filter_name exposure_count exposure_time
            = Inr () \<longrightarrow>
        sequence_trace env target base_directory filter_name exposure_count exposure_time =
          prelude env target base_directory c
          @ concat (map (\<lambda>i. (if i \<noteq> 0 then dither_events else [])
                              @ capture_events env exposure_time filter_name
                                  (run_directory env base_directory target) (int i + 1) (Suc i))
                        [0..<nat exposure_count])
          @ [guide_stop_event,
             Log INFO (''Sequence complete. Images stored in ''
                       @ run_directory env base_directory target @ ''.'')]
        \<and> motion_writes
            (sequence_trace env target base_directory filter_name exposure_count
               exposure_time) =
            concat (replicate (nat exposure_count - 1)
              [(''TELESCOPE_MOTION_NS'', 1), (''TELESCOPE_MOTION_WE'', 1),
               (''TELESCOPE_MOTION_NS'', 0), (''TELESCOPE_MOTION_WE'', 0)])
        \<and> filter (\<lambda>(p, v). v < 0)
            (motion_writes
               (sequence_trace env target base_directory filter_name exposure_count
                  exposure_time)) = [])"
proof (intro conjI impI)
  show "dither w = w\<lparr>trace := trace w @ dither_events\<rparr>" by (rule dither_trace)
next
  show "dither_events =
       [Send_number ''iOptron IEQ Pro'' ''TELESCOPE_MOTION_NS'' ''TELESCOPE_MOTION_NS_VALUE'' 1,
        Sleep 1,
        Send_number ''iOptron IEQ Pro'' ''TELESCOPE_MOTION_WE'' ''TELESCOPE_MOTION_WE_VALUE'' 1,
        Sleep 1,
        Send_number ''iOptron IEQ Pro'' ''TELESCOPE_MOTION_NS'' ''TELESCOPE_MOTION_NS_VALUE'' 0,
        Send_number ''iOptron IEQ Pro'' ''TELESCOPE_MOTION_WE'' ''TELESCOPE_MOTION_WE_VALUE'' 0]"
    by (simp add: dither_events_def)
next
  assume a: "simbad env target = Some c \<and> passes_gate env c
        \<and> sequence_result env target base_directory filter_name exposure_count exposure_time
            = Inr ()"
  have "loop_events env exposure_time filter_name (run_directory env base_directory target)
          [0..<nat exposure_count] (Suc 0) =
        concat (map (\<lambda>i. (if i \<noteq> 0 then dither_events else [])
                              @ capture_events env exposure_time filter_name
                                  (run_directory env base_directory target) (int i + 1) (Suc i))
                        [0..<nat exposure_count])"
    by (rule loop_concat)
  with a show "sequence_trace env target base_directory filter_name exposure_count
      exposure_time =
          prelude env target base_directory c
          @ concat (map (\<lambda>i. (if i \<noteq> 0 then dither_events else [])
                              @ capture_events env exposure_time filter_name
                                  (run_directory env base_directory target) (int i + 1) (Suc i))
                        [0..<nat exposure_count])
          @ [guide_stop_event,
             Log INFO (''Sequence complete. Images stored in ''
                       @ run_directory env base_directory target @ ''.'')]"
    by (simp add: sequence_success_trace)
next
  assume a: "simbad env target = Some c \<and> passes_gate env c
        \<and> sequence_result env target base_directory filter_name exposure_count exposure_time
            = Inr ()"
  then show "motion_writes
            (sequence_trace env target base_directory filter_name exposure_count
               exposure_time) =
            concat (replicate (nat exposure_count - 1)
              [(''TELESCOPE_MOTION_NS'', 1), (''TELESCOPE_MOTION_WE'', 1),
               (''TELESCOPE_MOTION_NS'', 0), (''TELESCOPE_MOTION_WE'', 0)])"
    by (simp only: motion_writes_run motion_writes_dither)
next
  assume a: "simbad env target = Some c \<and> passes_gate env c
        \<and> sequence_result env target base_directory filter_name exposure_count exposure_time
            = Inr ()"
  then show "filter (\<lambda>(p, v). v < 0)
            (motion_writes
               (sequence_trace env target base_directory filter_name exposure_count
                  exposure_time)) = []"
    by (simp only: motion_writes_run no_negative_write)
qed

theorem dither_pulses_witness:
  "dither fresh =
     \<lparr>trace =
        [Send_number ''iOptron IEQ Pro'' ''TELESCOPE_MOTION_NS'' ''TELESCOPE_MOTION_NS_VALUE'' 1,
         Sleep 1,
         Send_number ''iOptron IEQ Pro'' ''TELESCOPE_MOTION_WE'' ''TELESCOPE_MOTION_WE_VALUE'' 1,
         Sleep 1,
         Send_number ''iOptron IEQ Pro'' ''TELESCOPE_MOTION_NS'' ''TELESCOPE_MOTION_NS_VALUE'' 0,
         Send_number ''iOptron IEQ Pro'' ''TELESCOPE_MOTION_WE'' ''TELESCOPE_MOTION_WE_VALUE'' 0],
      ticks = 0\<rparr>
   \<and> sequence_trace session ''M42'' ''/images'' ''R'' 2 10 =
       [Simbad_query ''M42'',
        Get_property ''iOptron IEQ Pro'' ''GEOGRAPHIC_COORD'',
        Makedirs ''/images/M42_20240807_2230UT'',
        Http_get ''http://localhost:4400/set_dec_guide_mode'' [(''mode'', ''multistar'')],
        Http_get ''http://localhost:4400/guide'' [],
        Send_number ''ZWO EFW'' ''FILTER_SLOT'' ''FILTER_SLOT_VALUE'' 2,
        Sleep 2,
        Send_number ''ZWO CCD ASI183MM Pro'' ''CCD_EXPOSURE'' ''CCD_EXPOSURE_VALUE'' 10,
        Sleep 12,
        Send_text ''ZWO CCD ASI183MM Pro'' ''CCD_SAVE'' ''CCD_SAVE_PATH''
          ''/images/M42_20240807_2230UT/R_20240807_2230UT_0001.fits'',
        Log INFO ''Captured /images/M42_20240807_2230UT/R_20240807_2230UT_0001.fits'',
        Send_number ''iOptron IEQ Pro'' ''TELESCOPE_MOTION_NS'' ''TELESCOPE_MOTION_NS_VALUE'' 1,
        Sleep 1,
        Send_number ''iOptron IEQ Pro'' ''TELESCOPE_MOTION_WE'' ''TELESCOPE_MOTION_WE_VALUE'' 1,
        Sleep 1,
        Send_number ''iOptron IEQ Pro'' ''TELESCOPE_MOTION_NS'' ''TELESCOPE_MOTION_NS_VALUE'' 0,
        Send_number ''iOptron IEQ Pro'' ''TELESCOPE_MOTION_WE'' ''TELESCOPE_MOTION_WE_VALUE'' 0,
        Send_number ''ZWO EFW'' ''FILTER_SLOT'' ''FILTER_SLOT_VALUE'' 2,
        Sleep 2,
        Send_number ''ZWO CCD ASI183MM Pro'' ''CCD_EXPOSURE'' ''CCD_EXPOSURE_VALUE'' 10,
        Sleep 12,
        Send_text ''ZWO CCD ASI183MM Pro'' ''CCD_SAVE'' ''CCD_SAVE_PATH''
          ''/images/M42_20240807_2230UT/R_20240807_2230UT_0002.fits'',
        Log INFO ''Captured /images/M42_20240807_2230UT/R_20240807_2230UT_0002.fits'',
        Http_get ''http://localhost:4400/stop_capture'' [],
        Log INFO ''Sequence complete. Images stored in /images/M42_20240807_2230UT.'']
   \<and> motion_writes (sequence_trace session ''M42'' ''/images'' ''R'' 2 10) =
       [(''TELESCOPE_MOTION_NS'', 1), (''TELESCOPE_MOTION_WE'', 1),
        (''TELESCOPE_MOTION_NS'', 0), (''TELESCOPE_MOTION_WE'', 0)]"
  using dither_pulses [of fresh session "''M42''" M42 "''/images''" "''R''" 2 10]
  by (simp add: session_gate session_result fresh_def dither_events_def upt_nat_2
      prelude_def gate_events_def session_directory guide_enable_event_def
      guide_start_event_def guide_stop_event_def capture_events_def filters_def
      session_stamp fmt_04d_small Let_def motion_writes_def)

text \<open>
  The pulses are not in opposite directions: the only values a dither writes are 1, to
  both axes, and then 0, to both axes; no write carries the opposite of an earlier value.
\<close>

theorem dither_direction_counterexample:
  "motion_writes (trace (dither fresh)) =
     [(''TELESCOPE_MOTION_NS'', 1), (''TELESCOPE_MOTION_WE'', 1),
      (''TELESCOPE_MOTION_NS'', 0), (''TELESCOPE_MOTION_WE'', 0)]
   \<and> map snd (filter (\<lambda>(p, v). v \<noteq> 0) (motion_writes (trace (dither fresh)))) = [1, 1]
   \<and> filter (\<lambda>(p, v). v < 0) (motion_writes (trace (dither fresh))) = []"
  by (simp add: dither_trace fresh_def motion_writes_dither)

text \<open>
  \<^bold>\<open>C9.\<close>  With \<open>exposure_count = 0\<close>, a target that resolves and passes the gate still
  gets its output directory, the guide-enable, guide-start and guide-stop calls and the
  completion log entry, and nothing is sent to the filter wheel, the camera or the mount's
  motion properties.
\<close>

theorem zero_exposures:
  assumes "simbad env target = Some c" and "passes_gate env c"
  shows "observatory_sequence env target base_directory filter_name 0 exposure_time fresh =
           (Inr (),
            \<lparr>trace = gate_events env target c
                     @ [Makedirs (run_directory env base_directory target),
                        guide_enable_event, guide_start_event, guide_stop_event,
                        Log INFO (''Sequence complete. Images stored in ''
                                  @ run_directory env base_directory target @ ''.'')],
             ticks = 1\<rparr>)
       \<and> filter is_capture_cmd
           (trace (snd (observatory_sequence env target base_directory filter_name 0
                          exposure_time fresh))) = []
       \<and> filter is_dither_cmd
           (trace (snd (observatory_sequence env target base_directory filter_name 0
                          exposure_time fresh))) = []"
proof -
  from assms(2) have g: "20 \<le> altitude_of env c \<or> lower (reply env) = ''y''"
    by (simp add: passes_gate_iff)
  have run: "observatory_sequence env target base_directory filter_name 0 exposure_time fresh =
           (Inr (),
            \<lparr>trace = gate_events env target c
                     @ [Makedirs (run_directory env base_directory target),
                        guide_enable_event, guide_start_event, guide_stop_event,
                        Log INFO (''Sequence complete. Images stored in ''
                                  @ run_directory env base_directory target @ ''.'')],
             ticks = 1\<rparr>)"
    by (simp add: sequence_imaged [OF assms(1) g] prelude_def)
  show ?thesis
    by (simp add: run gate_events_def guide_enable_event_def guide_start_event_def
        guide_stop_event_def)
qed

theorem zero_exposures_witness:
  "simbad session ''M42'' = Some M42 \<and> passes_gate session M42
   \<and> observatory_sequence session ''M42'' ''/images'' ''R'' 0 30 fresh =
       (Inr (),
        \<lparr>trace = [Simbad_query ''M42'',
                  Get_property ''iOptron IEQ Pro'' ''GEOGRAPHIC_COORD'',
                  Makedirs ''/images/M42_20240807_2230UT'',
                  Http_get ''http://localhost:4400/set_dec_guide_mode'' [(''mode'', ''multistar'')],
                  Http_get ''http://localhost:4400/guide'' [],
                  Http_get ''http://localhost:4400/stop_capture'' [],
                  Log INFO ''Sequence complete. Images stored in /images/M42_20240807_2230UT.''],
         ticks = 1\<rparr>)"
proof -
  have h1: "simbad session ''M42'' = Some M42" by (simp add: session_def)
  have h2: "passes_gate session M42" by (simp add: passes_gate_iff session_def)
  have a: "altitude_of session M42 = 45" by (simp add: session_def)
  show ?thesis
    using h1 h2 zero_exposures [OF h1 h2, of "''/images''" "''R''" 30]
    by (simp add: gate_events_def session_directory a guide_enable_event_def
        guide_start_event_def guide_stop_event_def)
qed

text \<open>
  \<^bold>\<open>C10.\<close>  For a resolved target below 20 degrees the gate's answer is exactly whether the
  lower-cased reply is the one-character string \<open>y\<close>, which holds for the replies \<open>y\<close>
  and \<open>Y\<close> only.  The sequence goes on to create its directory if and only if that is so,
  and otherwise returns with the abort entry as its last event; the witness is the reply
  \<open>yes\<close>, which declines.
\<close>

theorem confirmation_only_y:
  assumes "simbad env target = Some c" and "altitude_of env c < 20"
  shows "(fst (check_continue_sequence env (altitude_of env c) w) \<longleftrightarrow> lower (reply env) = ''y'')
       \<and> (lower (reply env) = ''y'' \<longleftrightarrow> reply env = ''y'' \<or> reply env = ''Y'')
       \<and> (Makedirs (run_directory env base_directory target)
            \<in> set (trace (snd (observatory_sequence env target base_directory filter_name
                                 exposure_count exposure_time fresh)))
          \<longleftrightarrow> lower (reply env) = ''y'')
       \<and> (observatory_sequence env target base_directory filter_name exposure_count
            exposure_time fresh =
            (Inr (),
             \<lparr>trace = [Simbad_query target,
                       Get_property ''iOptron IEQ Pro'' ''GEOGRAPHIC_COORD'',
                       Input_prompt (''Target is at '' @ fmt_2f env (altitude_of env c)
                                     @ '' degrees altitude, continue? (y/n): ''),
                       Log INFO ''Sequence aborted due to low altitude.''],
              ticks = 0\<rparr>)
          \<longleftrightarrow> lower (reply env) \<noteq> ''y'')"
proof (cases "lower (reply env) = ''y''")
  case True
  then have g: "20 \<le> altitude_of env c \<or> lower (reply env) = ''y''" by simp
  obtain es where tr: "trace (snd (observatory_sequence env target base_directory filter_name
        exposure_count exposure_time fresh)) = prelude env target base_directory c @ es"
    using sequence_proceeds [OF assms(1) g] by blast
  have "observatory_sequence env target base_directory filter_name exposure_count
            exposure_time fresh \<noteq>
            (Inr (),
             \<lparr>trace = [Simbad_query target,
                       Get_property ''iOptron IEQ Pro'' ''GEOGRAPHIC_COORD'',
                       Input_prompt (''Target is at '' @ fmt_2f env (altitude_of env c)
                                     @ '' degrees altitude, continue? (y/n): ''),
                       Log INFO ''Sequence aborted due to low altitude.''],
              ticks = 0\<rparr>)"
  proof
    assume "observatory_sequence env target base_directory filter_name exposure_count
            exposure_time fresh =
            (Inr (),
             \<lparr>trace = [Simbad_query target,
                       Get_property ''iOptron IEQ Pro'' ''GEOGRAPHIC_COORD'',
                       Input_prompt (''Target is at '' @ fmt_2f env (altitude_of env c)
                                     @ '' degrees altitude, continue? (y/n): ''),
                       Log INFO ''Sequence aborted due to low altitude.''],
              ticks = 0\<rparr>)"
    with tr assms(2) show False
      by (simp add: prelude_def gate_events_def)
  qed
  with True tr assms(2) show ?thesis
    by (simp add: check_continue_sequence_def lower_y [symmetric] prelude_def)
next
  case False
  with assms show ?thesis
    by (simp add: check_continue_sequence_def lower_y [symmetric]
        sequence_declined gate_events_def)
qed

theorem confirmation_only_y_witness:
  "simbad (low_session ''yes'') ''M42'' = Some M42
   \<and> altitude_of (low_session ''yes'') M42 < 20
   \<and> lower (reply (low_session ''yes'')) = ''yes''
   \<and> \<not> fst (check_continue_sequence (low_session ''yes'') 12 fresh)
   \<and> Makedirs ''/images/M42_20240807_2230UT''
       \<notin> set (trace (snd (observatory_sequence (low_session ''yes'') ''M42'' ''/images'' ''R''
                            5 30 fresh)))
   \<and> observatory_sequence (low_session ''yes'') ''M42'' ''/images'' ''R'' 5 30 fresh =
       (Inr (),
        \<lparr>trace = [Simbad_query ''M42'',
                  Get_property ''iOptron IEQ Pro'' ''GEOGRAPHIC_COORD'',
                  Input_prompt ''Target is at 12.00 degrees altitude, continue? (y/n): '',
                  Log INFO ''Sequence aborted due to low altitude.''],
         ticks = 0\<rparr>)"
proof -
  have h1: "simbad (low_session ''yes'') ''M42'' = Some M42"
    by (simp add: low_session_def session_def)
  have h2: "altitude_of (low_session ''yes'') M42 < 20"
    by (simp add: low_session_def)
  have r: "reply (low_session ''yes'') = ''yes''" "altitude_of (low_session ''yes'') M42 = 12"
    "fmt_2f (low_session ''yes'') = (\<lambda>x. ''12.00'')"
    by (simp_all add: low_session_def)
  show ?thesis
    using h1 h2 confirmation_only_y [OF h1 h2, of fresh "''/images''" "''R''" 5 30]
    by (simp add: r lower_yes run_directory_def low_session_stamp)
qed

end
